theory Spec2Isabelle
  imports Complex_Main "HOL-Library.Multiset"
begin

section \<open>Values of the host language\<close>

text \<open>
  The engine of \<^verbatim>\<open>core/game_engine.py\<close> is embedded function by function.
  Exceptions are values of \<open>error\<close>; a function that can raise returns
  \<open>error + 'a\<close> with \<open>Inl\<close> for the exception.  Integers are unbounded
  (\<open>int\<close>).
\<close>

datatype error =
  IndexError | KeyError | TypeError | ValueError | OverflowError | AttributeError

text \<open>
  A float is modelled by the real number it denotes.  NaN and the infinities are left
  out: the clock does not return them, no operation of the program makes them from
  finite floats.  A file from which \<^verbatim>\<open>json.load\<close> returns one (it reads the
  literals \<^verbatim>\<open>NaN\<close> and \<^verbatim>\<open>Infinity\<close>, and a number such as \<^verbatim>\<open>1e999\<close>) is
  not covered.  What the machine's rounded
  arithmetic returns is not fixed: the operations are a parameter \<open>fa\<close> of every
  function that computes with floats, and every statement below holds for every value
  of that parameter.
  \<^item> \<open>fsub fa x y\<close> is \<^verbatim>\<open>x - y\<close> and \<open>fdiv fa x y\<close> is \<^verbatim>\<open>x / y\<close> on floats;
  \<^item> \<open>to_float fa n\<close> is the conversion of the int \<open>n\<close> that mixed arithmetic makes,
    \<open>None\<close> where it raises OverflowError;
  \<^item> \<open>int_truediv fa a b\<close> is \<^verbatim>\<open>a / b\<close> on ints with \<open>b\<close> not zero, \<open>None\<close>
    where it raises OverflowError.

  Comparisons do not round, of two floats or of an int with a float, and the ints 0 and
  1 and the literals 3, 10 and 30 are converted exactly.
\<close>

record float_arith =
  fsub :: "real \<Rightarrow> real \<Rightarrow> real"
  fdiv :: "real \<Rightarrow> real \<Rightarrow> real"
  to_float :: "int \<Rightarrow> real option"
  int_truediv :: "int \<Rightarrow> int \<Rightarrow> real option"

text \<open>
  A settings file is JSON, and \<^verbatim>\<open>GameSettings\<close> does not check the types of
  its fields, so a field holds any JSON value.  A str that the program only stores,
  compares or uses as a key is a HOL string: the bytes that encode it in the file.  A
  dict is the list of its items, each key once.
\<close>

datatype pyval =
    VNone
  | VBool bool
  | VInt int
  | VFloat real
  | VStr string
  | VList "pyval list"
  | VDict "(string \<times> pyval) list"

text \<open>Truth value testing, as \<^verbatim>\<open>if v\<close>, \<^verbatim>\<open>v and w\<close> and \<^verbatim>\<open>not v\<close> do it.\<close>

fun truthy :: "pyval \<Rightarrow> bool" where
  "truthy VNone = False"
| "truthy (VBool b) = b"
| "truthy (VInt n) = (n \<noteq> 0)"
| "truthy (VFloat r) = (r \<noteq> 0)"
| "truthy (VStr t) = (t \<noteq> [])"
| "truthy (VList vs) = (vs \<noteq> [])"
| "truthy (VDict kvs) = (kvs \<noteq> [])"

definition py_not :: "pyval \<Rightarrow> pyval" where
  "py_not v = VBool (\<not> truthy v)"

text \<open>
  Arithmetic on a field value: \<^verbatim>\<open>v / d\<close> with a float \<open>d\<close>, \<^verbatim>\<open>v - n\<close> with
  an int literal \<open>n\<close>, and \<^verbatim>\<open>max(n, v)\<close> with an int \<open>n\<close>.  bool is a subtype of
  int; every other non-number raises TypeError, and an int too large for a float raises
  OverflowError when it is divided by a float.  \<^verbatim>\<open>max(n, v)\<close> keeps \<open>n\<close> unless
  \<open>v\<close> is strictly greater.
\<close>

fun py_truediv :: "float_arith \<Rightarrow> pyval \<Rightarrow> real \<Rightarrow> error + real" where
  "py_truediv fa (VInt n) d =
     (case to_float fa n of None \<Rightarrow> Inl OverflowError | Some x \<Rightarrow> Inr (fdiv fa x d))"
| "py_truediv fa (VBool b) d = Inr (fdiv fa (of_bool b) d)"
| "py_truediv fa (VFloat r) d = Inr (fdiv fa r d)"
| "py_truediv fa _ d = Inl TypeError"

fun py_sub :: "float_arith \<Rightarrow> pyval \<Rightarrow> int \<Rightarrow> error + pyval" where
  "py_sub fa (VInt a) n = Inr (VInt (a - n))"
| "py_sub fa (VBool b) n = Inr (VInt (of_bool b - n))"
| "py_sub fa (VFloat r) n = Inr (VFloat (fsub fa r (real_of_int n)))"
| "py_sub fa _ n = Inl TypeError"

fun py_max :: "int \<Rightarrow> pyval \<Rightarrow> error + pyval" where
  "py_max n (VInt a) = Inr (if n < a then VInt a else VInt n)"
| "py_max n (VBool b) = Inr (if n < of_bool b then VBool b else VInt n)"
| "py_max n (VFloat r) = Inr (if real_of_int n < r then VFloat r else VInt n)"
| "py_max n _ = Inl TypeError"

text \<open>
  A str whose characters the program inspects (a player's name, which is trimmed) is
  the list of its code points.
\<close>

type_synonym ustring = "nat list"



text \<open>The placeholder name, U+0410 U+043D U+043E U+043D U+0438 U+043C.\<close>

definition anonymous :: ustring where
  "anonymous = [1040, 1085, 1086, 1085, 1080, 1084]"

text \<open>The bytes that encode a str in a JSON file (UTF-8).\<close>

definition utf8_char :: "nat \<Rightarrow> string" where
  "utf8_char c =
     (if c < 128 then [char_of c]
      else if c < 2048 then [char_of (192 + c div 64), char_of (128 + c mod 64)]
      else if c < 65536 then
        [char_of (224 + c div 4096), char_of (128 + c div 64 mod 64), char_of (128 + c mod 64)]
      else
        [char_of (240 + c div 262144), char_of (128 + c div 4096 mod 64),
         char_of (128 + c div 64 mod 64), char_of (128 + c mod 64)])"

definition utf8 :: "ustring \<Rightarrow> string" where
  "utf8 t = concat (map utf8_char t)"

section \<open>Grid and direction primitives\<close>

datatype Direction = UP | DOWN | LEFT | RIGHT

fun direction_value :: "Direction \<Rightarrow> int \<times> int" where
  "direction_value UP = (-1, 0)"
| "direction_value DOWN = (1, 0)"
| "direction_value LEFT = (0, -1)"
| "direction_value RIGHT = (0, 1)"

datatype GameState = MENU | PLAYING | PAUSED | GAME_OVER | SETTINGS | HIGH_SCORES | NAME_INPUT

datatype Point = Point (point_y: int) (point_x: int)

text \<open>\<^verbatim>\<open>Point.__add__\<close>; \<^verbatim>\<open>Point.__eq__\<close> is equality of the two coordinates.\<close>

definition point_add :: "Point \<Rightarrow> Direction \<Rightarrow> Point" where
  "point_add p d = (case direction_value d of (dy, dx) \<Rightarrow> Point (point_y p + dy) (point_x p + dx))"

record FieldSize =
  name :: string
  width :: int
  height :: int
  description :: ustring

definition FIELD_SIZES :: "(string \<times> FieldSize) list" where
  "FIELD_SIZES =
    [(''Small'', \<lparr>name = ''Small'', width = 15, height = 10,
        description = [1052, 1072, 1083, 1077, 1085, 1100, 1082, 1086, 1077, 32, 1087, 1086,
          1083, 1077, 32, 45, 32, 1073, 1099, 1089, 1090, 1088, 1099, 1077, 32, 1080, 1075,
          1088, 1099]\<rparr>),
     (''Medium'', \<lparr>name = ''Medium'', width = 20, height = 15,
        description = [1057, 1088, 1077, 1076, 1085, 1080, 1081, 32, 1088, 1072, 1079, 1084,
          1077, 1088, 32, 45, 32, 1086, 1087, 1090, 1080, 1084, 1072, 1083, 1100, 1085,
          1086]\<rparr>),
     (''Large'', \<lparr>name = ''Large'', width = 30, height = 20,
        description = [1041, 1086, 1083, 1100, 1096, 1086, 1077, 32, 1087, 1086, 1083, 1077,
          32, 45, 32, 1076, 1086, 1083, 1075, 1080, 1077, 32, 1080, 1075, 1088, 1099]\<rparr>),
     (''Classic'', \<lparr>name = ''Classic'', width = 25, height = 18,
        description = [1050, 1083, 1072, 1089, 1089, 1080, 1095, 1077, 1089, 1082, 1080, 1081,
          32, 1088, 1072, 1079, 1084, 1077, 1088, 32, 78, 111, 107, 105, 97]\<rparr>)]"

text \<open>
  \<^verbatim>\<open>FIELD_SIZES[k]\<close>: a list or a dict is unhashable (TypeError), any other value
  that is not one of the four names is a missing key.
\<close>

fun field_sizes_getitem :: "pyval \<Rightarrow> error + FieldSize" where
  "field_sizes_getitem (VStr k) =
     (case map_of FIELD_SIZES k of None \<Rightarrow> Inl KeyError | Some field_info \<Rightarrow> Inr field_info)"
| "field_sizes_getitem (VList vs) = Inl TypeError"
| "field_sizes_getitem (VDict kvs) = Inl TypeError"
| "field_sizes_getitem _ = Inl KeyError"

section \<open>Settings\<close>

record GameSettings =
  initial_speed :: pyval
  difficulty :: pyval
  show_grid :: pyval
  smooth_animation :: pyval
  sound_effects :: pyval
  theme :: pyval
  field_size :: pyval
  timer_mode :: pyval
  auto_speed_increase :: pyval
  vibration :: pyval

text \<open>The field defaults of the dataclass, that is \<^verbatim>\<open>GameSettings()\<close>.\<close>

definition GameSettings_default :: GameSettings where
  "GameSettings_default =
    \<lparr>initial_speed = VInt 150, difficulty = VStr ''Medium'', show_grid = VBool True,
     smooth_animation = VBool True, sound_effects = VBool False, theme = VStr ''Classic'',
     field_size = VStr ''Medium'', timer_mode = VBool True, auto_speed_increase = VBool True,
     vibration = VBool True\<rparr>"

definition known_fields :: "string set" where
  "known_fields =
    {''initial_speed'', ''difficulty'', ''show_grid'', ''smooth_animation'', ''sound_effects'',
     ''theme'', ''field_size'', ''timer_mode'', ''auto_speed_increase'', ''vibration''}"

definition to_dict :: "GameSettings \<Rightarrow> (string \<rightharpoonup> pyval)" where
  "to_dict g =
    [''initial_speed'' \<mapsto> initial_speed g, ''difficulty'' \<mapsto> difficulty g,
     ''show_grid'' \<mapsto> show_grid g, ''smooth_animation'' \<mapsto> smooth_animation g,
     ''sound_effects'' \<mapsto> sound_effects g, ''theme'' \<mapsto> theme g,
     ''field_size'' \<mapsto> field_size g, ''timer_mode'' \<mapsto> timer_mode g,
     ''auto_speed_increase'' \<mapsto> auto_speed_increase g, ''vibration'' \<mapsto> vibration g]"

text \<open>
  The generated constructor called with keyword arguments, \<^verbatim>\<open>cls(**kwargs)\<close>: a
  keyword that is not a field raises TypeError, a field without a keyword takes its
  default.
\<close>

definition kwarg :: "(string \<rightharpoonup> pyval) \<Rightarrow> string \<Rightarrow> pyval \<Rightarrow> pyval" where
  "kwarg kwargs k dflt = (case kwargs k of None \<Rightarrow> dflt | Some v \<Rightarrow> v)"

definition GameSettings_init :: "(string \<rightharpoonup> pyval) \<Rightarrow> error + GameSettings" where
  "GameSettings_init kwargs =
    (if dom kwargs \<subseteq> known_fields then
       Inr \<lparr>initial_speed = kwarg kwargs ''initial_speed'' (VInt 150),
            difficulty = kwarg kwargs ''difficulty'' (VStr ''Medium''),
            show_grid = kwarg kwargs ''show_grid'' (VBool True),
            smooth_animation = kwarg kwargs ''smooth_animation'' (VBool True),
            sound_effects = kwarg kwargs ''sound_effects'' (VBool False),
            theme = kwarg kwargs ''theme'' (VStr ''Classic''),
            field_size = kwarg kwargs ''field_size'' (VStr ''Medium''),
            timer_mode = kwarg kwargs ''timer_mode'' (VBool True),
            auto_speed_increase = kwarg kwargs ''auto_speed_increase'' (VBool True),
            vibration = kwarg kwargs ''vibration'' (VBool True)\<rparr>
     else Inl TypeError)"

definition from_dict :: "(string \<rightharpoonup> pyval) \<Rightarrow> error + GameSettings" where
  "from_dict data = (let filtered_data = data |` known_fields in GameSettings_init filtered_data)"

section \<open>Sessions and the score ledger\<close>

record GameSession =
  start_time :: real
  end_time :: real
  session_score :: int
  session_foods_eaten :: int
  max_length :: int
  session_field_size :: pyval
  session_difficulty :: pyval
  moves_made :: int
  pauses_count :: int


text \<open>
  The data manager, with what its two files hold: \<open>None\<close> for a file that is
  missing or is not JSON, and otherwise the value \<^verbatim>\<open>json.load\<close> returns, which for
  the settings file is a mapping.  A write is taken to succeed.
\<close>

record DataManager =
  data_dir :: string
  settings_store :: "(string \<rightharpoonup> pyval) option"
  scores_store :: "pyval option"

definition load_settings :: "DataManager \<Rightarrow> GameSettings" where
  "load_settings dm =
     (case settings_store dm of
        None \<Rightarrow> GameSettings_default
      | Some data \<Rightarrow> (case from_dict data of Inl e \<Rightarrow> GameSettings_default | Inr g \<Rightarrow> g))"

definition save_settings :: "GameSettings \<Rightarrow> DataManager \<Rightarrow> DataManager" where
  "save_settings g dm = dm\<lparr>settings_store := Some (to_dict g)\<rparr>"










section \<open>The engine\<close>

text \<open>
  A callback takes no engine and returns nothing: the model records whether one is
  installed and lists, in \<open>events\<close>, the calls made to them.  The outcomes of the
  \<^verbatim>\<open>random\<close> module are a sequence \<open>rng\<close> read at \<open>rng_pos\<close>.
\<close>

datatype event = FoodEaten | GameOverEvent | ScoreChanged int

record SnakeGameEngine =
  data_manager :: DataManager
  state :: GameState
  settings :: GameSettings
  menu_index :: int
  settings_index :: int
  field_width :: int
  field_height :: int
  snake :: "Point list"
  food :: Point
  direction :: Direction
  next_direction :: Direction
  score :: int
  game_over :: bool
  paused :: bool
  player_name :: ustring
  max_name_length :: int
  current_session :: "GameSession option"
  current_speed :: pyval
  last_update_time :: real
  last_speed_increase :: real
  foods_eaten :: int
  on_food_eaten :: bool
  on_game_over :: bool
  on_score_changed :: bool
  events :: "event list"
  rng :: "nat \<Rightarrow> nat"
  rng_pos :: nat

definition calculate_field_dimensions :: "SnakeGameEngine \<Rightarrow> error + SnakeGameEngine" where
  "calculate_field_dimensions s =
    (case field_sizes_getitem (field_size (settings s)) of
       Inl e \<Rightarrow> Inl e
     | Inr field_info \<Rightarrow> Inr (s\<lparr>field_width := width field_info, field_height := height field_info\<rparr>))"

text \<open>\<^verbatim>\<open>SnakeGameEngine.__init__\<close>, with no callback installed.\<close>

definition engine_init :: "DataManager \<Rightarrow> (nat \<Rightarrow> nat) \<Rightarrow> error + SnakeGameEngine" where
  "engine_init dm r =
    calculate_field_dimensions
      \<lparr>data_manager = dm, state = MENU, settings = load_settings dm, menu_index = 0,
       settings_index = 0, field_width = 20, field_height = 15, snake = [],
       food = Point 0 0, direction = RIGHT, next_direction = RIGHT, score = 0,
       game_over = False, paused = False, player_name = [], max_name_length = 20,
       current_session = None, current_speed = VInt 150, last_update_time = 0,
       last_speed_increase = 0, foods_eaten = 0, on_food_eaten = False,
       on_game_over = False, on_score_changed = False, events = [], rng = r, rng_pos = 0\<rparr>"

text \<open>
  \<^verbatim>\<open>random.randint(a, b)\<close>: an integer of \<open>[a, b]\<close>, ValueError when the range
  is empty.
\<close>

definition randint :: "int \<Rightarrow> int \<Rightarrow> SnakeGameEngine \<Rightarrow> error + (int \<times> SnakeGameEngine)" where
  "randint a b s =
    (if b < a then Inl ValueError
     else Inr (a + int (rng s (rng_pos s) mod nat (b - a + 1)), s\<lparr>rng_pos := rng_pos s + 1\<rparr>))"

text \<open>
  The loop of \<^verbatim>\<open>place_food\<close>, entered with the local variable \<open>attempts\<close> at the
  given value.
\<close>

function place_food_loop :: "nat \<Rightarrow> SnakeGameEngine \<Rightarrow> error + SnakeGameEngine" where
  "place_food_loop attempts s =
    (if attempts < 100 then
       (case randint 0 (field_height s - 1) s of
          Inl e \<Rightarrow> Inl e
        | Inr (food_y, s1) \<Rightarrow>
            (case randint 0 (field_width s1 - 1) s1 of
               Inl e \<Rightarrow> Inl e
             | Inr (food_x, s2) \<Rightarrow>
                 (let new_food = Point food_y food_x in
                  if new_food \<notin> set (snake s2) then Inr (s2\<lparr>food := new_food\<rparr>)
                  else place_food_loop (attempts + 1) s2)))
     else Inr s)"
  by pat_completeness auto
termination
  by (relation "measure (\<lambda>(attempts, s). 100 - attempts)") auto

declare place_food_loop.simps [simp del]

definition place_food :: "SnakeGameEngine \<Rightarrow> error + SnakeGameEngine" where
  "place_food s = place_food_loop 0 s"

definition reset_game :: "real \<Rightarrow> SnakeGameEngine \<Rightarrow> error + SnakeGameEngine" where
  "reset_game now s =
    (case calculate_field_dimensions s of
       Inl e \<Rightarrow> Inl e
     | Inr s1 \<Rightarrow>
        (let center_y = field_height s1 div 2;
             center_x = field_width s1 div 2;
             s2 = s1\<lparr>snake := [Point center_y center_x, Point center_y (center_x - 1),
                                  Point center_y (center_x - 2)],
                     direction := RIGHT, next_direction := RIGHT, score := 0,
                     game_over := False, paused := False, foods_eaten := 0,
                     current_speed := initial_speed (settings s1), last_speed_increase := 0\<rparr>
         in case place_food s2 of
              Inl e \<Rightarrow> Inl e
            | Inr s3 \<Rightarrow>
                Inr (s3\<lparr>current_session := Some
                      \<lparr>start_time = now, end_time = 0, session_score = 0,
                       session_foods_eaten = 0, max_length = 3,
                       session_field_size = field_size (settings s3),
                       session_difficulty = difficulty (settings s3),
                       moves_made = 0, pauses_count = 0\<rparr>\<rparr>)))"

definition opposite :: "Direction \<Rightarrow> Direction" where
  "opposite d = (case d of UP \<Rightarrow> DOWN | DOWN \<Rightarrow> UP | LEFT \<Rightarrow> RIGHT | RIGHT \<Rightarrow> LEFT)"

definition handle_direction_input :: "Direction \<Rightarrow> SnakeGameEngine \<Rightarrow> bool \<times> SnakeGameEngine" where
  "handle_direction_input new_direction s =
    (if paused s \<or> game_over s then (False, s)
     else if new_direction \<noteq> opposite (direction s) then (True, s\<lparr>next_direction := new_direction\<rparr>)
     else (False, s))"

text \<open>\<^verbatim>\<open>xs.index(v)\<close> on a list of str: the first position of \<open>v\<close>, or ValueError.\<close>

fun index_of :: "string \<Rightarrow> string list \<Rightarrow> nat option" where
  "index_of k [] = None"
| "index_of k (x # xs) = (if x = k then Some 0 else map_option Suc (index_of k xs))"

fun list_index :: "string list \<Rightarrow> pyval \<Rightarrow> error + nat" where
  "list_index xs (VStr k) = (case index_of k xs of None \<Rightarrow> Inl ValueError | Some i \<Rightarrow> Inr i)"
| "list_index xs _ = Inl ValueError"

definition difficulties :: "string list" where
  "difficulties = [''Easy'', ''Medium'', ''Hard'', ''Extreme'']"

definition speeds :: "(string \<times> int) list" where
  "speeds = [(''Easy'', 200), (''Medium'', 150), (''Hard'', 100), (''Extreme'', 60)]"

definition handle_settings_navigation :: "string \<Rightarrow> SnakeGameEngine \<Rightarrow> error + SnakeGameEngine" where
  "handle_settings_navigation action s =
    (let max_settings = 9 in
     if action = ''up'' then Inr (s\<lparr>settings_index := (settings_index s - 1) mod max_settings\<rparr>)
     else if action = ''down'' then Inr (s\<lparr>settings_index := (settings_index s + 1) mod max_settings\<rparr>)
     else if action = ''select'' then
       (if settings_index s = 0 then
          (case list_index difficulties (difficulty (settings s)) of
             Inl e \<Rightarrow> Inl e
           | Inr current \<Rightarrow>
               (let d = difficulties ! ((current + 1) mod length difficulties) in
                case map_of speeds d of
                  None \<Rightarrow> Inl KeyError
                | Some v \<Rightarrow>
                    Inr (s\<lparr>settings := (settings s)\<lparr>difficulty := VStr d, initial_speed := VInt v\<rparr>\<rparr>)))
        else if settings_index s = 1 then
          (let sizes = map fst FIELD_SIZES in
           case list_index sizes (field_size (settings s)) of
             Inl e \<Rightarrow> Inl e
           | Inr current \<Rightarrow>
               Inr (s\<lparr>settings := (settings s)
                      \<lparr>field_size := VStr (sizes ! ((current + 1) mod length sizes))\<rparr>\<rparr>))
        else if settings_index s = 2 then
          Inr (s\<lparr>settings := (settings s)\<lparr>show_grid := py_not (show_grid (settings s))\<rparr>\<rparr>)
        else if settings_index s = 3 then
          Inr (s\<lparr>settings := (settings s)
                 \<lparr>smooth_animation := py_not (smooth_animation (settings s))\<rparr>\<rparr>)
        else if settings_index s = 4 then
          Inr (s\<lparr>settings := (settings s)\<lparr>timer_mode := py_not (timer_mode (settings s))\<rparr>\<rparr>)
        else if settings_index s = 5 then
          Inr (s\<lparr>settings := (settings s)
                 \<lparr>auto_speed_increase := py_not (auto_speed_increase (settings s))\<rparr>\<rparr>)
        else if settings_index s = 6 then
          Inr (s\<lparr>settings := (settings s)\<lparr>sound_effects := py_not (sound_effects (settings s))\<rparr>\<rparr>)
        else if settings_index s = 7 then
          Inr (s\<lparr>settings := (settings s)\<lparr>vibration := py_not (vibration (settings s))\<rparr>\<rparr>)
        else if settings_index s = 8 then
          Inr (s\<lparr>data_manager := save_settings (settings s) (data_manager s), state := MENU\<rparr>)
        else Inr s)
     else if action = ''back'' then Inr (s\<lparr>state := MENU\<rparr>)
     else Inr s)"

text \<open>\<^verbatim>\<open>self.current_speed = max(lo, self.current_speed - step)\<close>.\<close>

definition speed_up ::
  "float_arith \<Rightarrow> int \<Rightarrow> int \<Rightarrow> SnakeGameEngine \<Rightarrow> error + SnakeGameEngine" where
  "speed_up fa lo step s =
    (case py_sub fa (current_speed s) step of
       Inl e \<Rightarrow> Inl e
     | Inr v \<Rightarrow> (case py_max lo v of Inl e \<Rightarrow> Inl e | Inr w \<Rightarrow> Inr (s\<lparr>current_speed := w\<rparr>)))"

text \<open>The session statistics and the time-driven speed increase of a tick.\<close>

definition update_session ::
  "float_arith \<Rightarrow> real \<Rightarrow> SnakeGameEngine \<Rightarrow> error + SnakeGameEngine" where
  "update_session fa current_time s =
    (case current_session s of
       None \<Rightarrow> Inr s
     | Some session \<Rightarrow>
        (let s1 = s\<lparr>current_session := Some (session\<lparr>moves_made := moves_made session + 1\<rparr>)\<rparr> in
         if truthy (timer_mode (settings s1)) \<and> truthy (auto_speed_increase (settings s1)) \<and>
            fsub fa (fsub fa current_time (start_time session)) (last_speed_increase s1) \<ge> 30
         then (case speed_up fa 50 10 s1 of
                 Inl e \<Rightarrow> Inl e
               | Inr s2 \<Rightarrow>
                   Inr (s2\<lparr>last_speed_increase := fsub fa current_time (start_time session)\<rparr>))
         else Inr s1))"

text \<open>The two collision branches of a tick end the game the same way.\<close>

definition end_game :: "SnakeGameEngine \<Rightarrow> SnakeGameEngine" where
  "end_game s =
    (let s1 = s\<lparr>game_over := True, state := NAME_INPUT\<rparr> in
     if on_game_over s1 then s1\<lparr>events := events s1 @ [GameOverEvent]\<rparr> else s1)"

text \<open>The branch of a tick whose new head is the food cell.\<close>

definition eat_food :: "float_arith \<Rightarrow> SnakeGameEngine \<Rightarrow> error + SnakeGameEngine" where
  "eat_food fa s =
    (let s1 = s\<lparr>score := score s + 10, foods_eaten := foods_eaten s + 1\<rparr> in
     case place_food s1 of
       Inl e \<Rightarrow> Inl e
     | Inr s2 \<Rightarrow>
        (case (if truthy (auto_speed_increase (settings s2)) then speed_up fa 40 3 s2
               else Inr s2) of
           Inl e \<Rightarrow> Inl e
         | Inr s3 \<Rightarrow>
            (let s4 = (if on_food_eaten s3 then s3\<lparr>events := events s3 @ [FoodEaten]\<rparr> else s3);
                 s5 = (if on_score_changed s4
                       then s4\<lparr>events := events s4 @ [ScoreChanged (score s4)]\<rparr> else s4)
             in Inr s5)))"

text \<open>\<open>current_time\<close> is what \<^verbatim>\<open>time.time()\<close> returns in this call.\<close>

definition update_game_logic ::
  "float_arith \<Rightarrow> real \<Rightarrow> SnakeGameEngine \<Rightarrow> error + SnakeGameEngine" where
  "update_game_logic fa current_time s =
    (if game_over s \<or> paused s then Inr s
     else
       (case py_truediv fa (current_speed s) 1000 of
          Inl e \<Rightarrow> Inl e
        | Inr interval \<Rightarrow>
           if fsub fa current_time (last_update_time s) < interval then Inr s
           else
             (case update_session fa current_time (s\<lparr>last_update_time := current_time\<rparr>) of
                Inl e \<Rightarrow> Inl e
              | Inr s1 \<Rightarrow>
                 (let s2 = s1\<lparr>direction := next_direction s1\<rparr> in
                  case snake s2 of
                    [] \<Rightarrow> Inl IndexError
                  | head # body \<Rightarrow>
                     (let new_head = point_add head (direction s2) in
                      if point_y new_head < 0 \<or> point_y new_head \<ge> field_height s2 \<or>
                         point_x new_head < 0 \<or> point_x new_head \<ge> field_width s2
                      then Inr (end_game s2)
                      else if new_head \<in> set (snake s2) then Inr (end_game s2)
                      else
                        (let s3 = s2\<lparr>snake := new_head # snake s2\<rparr> in
                         if new_head = food s3 then eat_food fa s3
                         else Inr (s3\<lparr>snake := butlast (snake s3)\<rparr>)))))))"

definition handle_menu_navigation ::
  "string \<Rightarrow> real \<Rightarrow> SnakeGameEngine \<Rightarrow> error + (bool \<times> SnakeGameEngine)" where
  "handle_menu_navigation action now s =
    (if action = ''up'' then Inr (False, s\<lparr>menu_index := (menu_index s - 1) mod 4\<rparr>)
     else if action = ''down'' then Inr (False, s\<lparr>menu_index := (menu_index s + 1) mod 4\<rparr>)
     else if action = ''select'' then
       (if menu_index s = 0 then
          (case reset_game now (s\<lparr>state := PLAYING\<rparr>) of
             Inl e \<Rightarrow> Inl e
           | Inr s1 \<Rightarrow> Inr (False, s1))
        else if menu_index s = 1 then Inr (False, s\<lparr>state := SETTINGS, settings_index := 0\<rparr>)
        else if menu_index s = 2 then Inr (False, s\<lparr>state := HIGH_SCORES\<rparr>)
        else if menu_index s = 3 then Inr (True, s)
        else Inr (False, s))
     else Inr (False, s))"

section \<open>Notions used by the statements\<close>

text \<open>The values on which the arithmetic of the speed ramp is defined.\<close>

definition numeric :: "pyval \<Rightarrow> bool" where
  "numeric v = (case v of VInt n \<Rightarrow> True | VBool b \<Rightarrow> True | VFloat r \<Rightarrow> True | _ \<Rightarrow> False)"

text \<open>
  The cell drawn by the \<open>i\<close>-th pass (from 0) through the loop of \<^verbatim>\<open>place_food\<close>
  entered in state \<open>s\<close>: each pass reads two outcomes of the random source.
\<close>

definition candidate :: "SnakeGameEngine \<Rightarrow> nat \<Rightarrow> Point" where
  "candidate s i =
     Point (int (rng s (rng_pos s + 2 * i) mod nat (field_height s)))
           (int (rng s (rng_pos s + 2 * i + 1) mod nat (field_width s)))"






text \<open>
  The opposite pairs as the specification lists them: UP with DOWN, LEFT with RIGHT.
\<close>

fun spec_opposite :: "Direction \<Rightarrow> Direction" where
  "spec_opposite UP = DOWN"
| "spec_opposite DOWN = UP"
| "spec_opposite LEFT = RIGHT"
| "spec_opposite RIGHT = LEFT"

section \<open>Example states\<close>

text \<open>
  The arithmetic the examples are run with: no rounding, and the overflow of double
  precision, which has no value from \<open>2 ^ 1024 - 2 ^ 970\<close> on.  In every example the
  comparisons a tick makes have the outcome they have in double precision.
\<close>

definition exact :: float_arith where
  "exact =
     \<lparr>fsub = (\<lambda>x y. x - y), fdiv = (\<lambda>x y. x / y),
      to_float = (\<lambda>n. if \<bar>n\<bar> < 2 ^ 1024 - 2 ^ 970 then Some (real_of_int n) else None),
      int_truediv = (\<lambda>a b. if \<bar>real_of_int a / real_of_int b\<bar> < 2 ^ 1024 - 2 ^ 970
                            then Some (real_of_int a / real_of_int b) else None)\<rparr>"

text \<open>
  A settings file that selects the 15 by 10 field and leaves every other key out, and
  two random sources.  With either source the first cell drawn on the 15 by 10 field is
  (5, 8); after that \<open>lucky\<close> draws (5, 0) and \<open>unlucky\<close> draws (5, 5) for ever.
\<close>

definition small_files :: DataManager where
  "small_files =
     \<lparr>data_dir = ''.'', settings_store = Some [''field_size'' \<mapsto> VStr ''Small''],
      scores_store = None\<rparr>"

definition lucky :: "nat \<Rightarrow> nat" where
  "lucky i = (if i = 1 then 8 else if i = 3 then 0 else 5)"

definition unlucky :: "nat \<Rightarrow> nat" where
  "unlucky i = (if i = 1 then 8 else 5)"

text \<open>
  The engine built on \<open>small_files\<close> and the state that selecting the first menu item
  at time 100 leads to.
\<close>

definition at_menu :: "(nat \<Rightarrow> nat) \<Rightarrow> SnakeGameEngine" where
  "at_menu r =
     \<lparr>data_manager = small_files, state = MENU,
      settings = GameSettings_default\<lparr>field_size := VStr ''Small''\<rparr>, menu_index = 0,
      settings_index = 0, field_width = 15, field_height = 10, snake = [],
      food = Point 0 0, direction = RIGHT, next_direction = RIGHT, score = 0,
      game_over = False, paused = False, player_name = [], max_name_length = 20,
      current_session = None, current_speed = VInt 150, last_update_time = 0,
      last_speed_increase = 0, foods_eaten = 0, on_food_eaten = False,
      on_game_over = False, on_score_changed = False, events = [], rng = r, rng_pos = 0\<rparr>"

definition spawned :: "(nat \<Rightarrow> nat) \<Rightarrow> SnakeGameEngine" where
  "spawned r =
     (at_menu r)\<lparr>state := PLAYING, snake := [Point 5 7, Point 5 6, Point 5 5],
       food := Point 5 8, rng_pos := 2,
       current_session := Some
         \<lparr>start_time = 100, end_time = 0, session_score = 0, session_foods_eaten = 0,
          max_length = 3, session_field_size = VStr ''Small'',
          session_difficulty = VStr ''Medium'', moves_made = 0, pauses_count = 0\<rparr>\<rparr>"

text \<open>
  The state a tick at time 101 takes \<open>spawned unlucky\<close> to: the snake has eaten, and
  all 100 cells drawn for the new food were on the snake.
\<close>

definition fed :: SnakeGameEngine where
  "fed =
     (spawned unlucky)\<lparr>last_update_time := 101,
       snake := [Point 5 8, Point 5 7, Point 5 6, Point 5 5], score := 10, foods_eaten := 1,
       current_speed := VInt 147, rng_pos := 202,
       current_session := Some
         \<lparr>start_time = 100, end_time = 0, session_score = 0, session_foods_eaten = 0,
          max_length = 3, session_field_size = VStr ''Small'',
          session_difficulty = VStr ''Medium'', moves_made = 1, pauses_count = 0\<rparr>\<rparr>"

text \<open>
  A game whose tick interval is an int no float can hold, as a settings file with that
  \<open>initial_speed\<close> gives it.
\<close>

definition huge :: int where
  "huge = 10 ^ 400"

definition too_fast :: SnakeGameEngine where
  "too_fast = (spawned lucky)\<lparr>current_speed := VInt huge\<rparr>"

text \<open>A game in which a turn upwards is buffered while the snake still heads right.\<close>

definition turning :: SnakeGameEngine where
  "turning = (spawned lucky)\<lparr>next_direction := UP\<rparr>"

text \<open>The snake with its head on the last column, heading right.\<close>

definition at_edge :: SnakeGameEngine where
  "at_edge = (spawned lucky)\<lparr>snake := [Point 5 14, Point 5 13, Point 5 12]\<rparr>"

text \<open>
  The game played on from \<open>fed\<close>: the player turns up, right and down, one tick after
  each turn, and then asks for left.  The head is then beside the tail cell, which still
  holds the food, and the tick at time 105 runs into it.
\<close>

definition session_at :: "int \<Rightarrow> GameSession" where
  "session_at n =
     \<lparr>start_time = 100, end_time = 0, session_score = 0, session_foods_eaten = 0,
      max_length = 3, session_field_size = VStr ''Small'',
      session_difficulty = VStr ''Medium'', moves_made = n, pauses_count = 0\<rparr>"

definition climbed :: SnakeGameEngine where
  "climbed =
     fed\<lparr>next_direction := UP, direction := UP, last_update_time := 102,
       snake := [Point 4 8, Point 5 8, Point 5 7, Point 5 6],
       current_session := Some (session_at 2)\<rparr>"

definition crossed :: SnakeGameEngine where
  "crossed =
     climbed\<lparr>next_direction := RIGHT, direction := RIGHT, last_update_time := 103,
       snake := [Point 4 9, Point 4 8, Point 5 8, Point 5 7],
       current_session := Some (session_at 3)\<rparr>"

definition descended :: SnakeGameEngine where
  "descended =
     crossed\<lparr>next_direction := DOWN, direction := DOWN, last_update_time := 104,
       snake := [Point 5 9, Point 4 9, Point 4 8, Point 5 8],
       current_session := Some (session_at 4)\<rparr>"

definition trapped :: SnakeGameEngine where
  "trapped = descended\<lparr>next_direction := LEFT\<rparr>"

definition trapped_after :: SnakeGameEngine where
  "trapped_after =
     trapped\<lparr>direction := LEFT, last_update_time := 105, game_over := True,
       state := NAME_INPUT, current_session := Some (session_at 5)\<rparr>"

text \<open>
  The settings screen with the grid item selected, and the state after that item was
  toggled.
\<close>

definition in_settings :: SnakeGameEngine where
  "in_settings = (at_menu lucky)\<lparr>state := SETTINGS, settings_index := 2\<rparr>"

definition toggled :: SnakeGameEngine where
  "toggled = in_settings\<lparr>settings := (settings in_settings)\<lparr>show_grid := VBool False\<rparr>\<rparr>"

text \<open>A mapping with one settings key, one unknown key and every other key missing.\<close>

definition partial_settings :: "string \<rightharpoonup> pyval" where
  "partial_settings = [''field_size'' \<mapsto> VStr ''Small'', ''colour'' \<mapsto> VStr ''red'']"








section \<open>Auxiliary facts\<close>

subsection \<open>Speed arithmetic\<close>

lemma py_truediv_numeric: "py_truediv fa v d = Inr x \<Longrightarrow> numeric v"
  by (cases v) (simp_all add: numeric_def)

lemma py_sub_numeric: "numeric v \<Longrightarrow> \<exists>w. py_sub fa v n = Inr w \<and> numeric w"
  by (cases v) (simp_all add: numeric_def)

lemma py_max_numeric: "numeric v \<Longrightarrow> \<exists>w. py_max n v = Inr w \<and> numeric w"
  by (cases v) (simp_all add: numeric_def)

lemma speed_up_numeric:
  assumes "numeric (current_speed s)"
  shows "\<exists>w. speed_up fa lo st s = Inr (s\<lparr>current_speed := w\<rparr>) \<and> numeric w"
proof -
  obtain v where v: "py_sub fa (current_speed s) st = Inr v" "numeric v"
    using py_sub_numeric[OF assms] by blast
  obtain w where w: "py_max lo v = Inr w" "numeric w"
    using py_max_numeric[OF v(2)] by blast
  have "speed_up fa lo st s = Inr (s\<lparr>current_speed := w\<rparr>)"
    by (simp add: speed_up_def v w)
  with w(2) show ?thesis by blast
qed

lemma update_session_shape:
  assumes "numeric (current_speed s)"
  shows "\<exists>cs w l. update_session fa t s =
           Inr (s\<lparr>current_session := cs, current_speed := w, last_speed_increase := l\<rparr>) \<and>
           numeric w"
proof (cases "current_session s")
  case None
  have "update_session fa t s = Inr (s\<lparr>current_session := current_session s,
          current_speed := current_speed s, last_speed_increase := last_speed_increase s\<rparr>)"
    using None by (simp add: update_session_def)
  with assms show ?thesis by blast
next
  case (Some session)
  define s1 where "s1 = s\<lparr>current_session := Some (session\<lparr>moves_made := moves_made session + 1\<rparr>)\<rparr>"
  have n1: "numeric (current_speed s1)" using assms by (simp add: s1_def)
  obtain w where w: "speed_up fa 50 10 s1 = Inr (s1\<lparr>current_speed := w\<rparr>)" "numeric w"
    using speed_up_numeric[OF n1] by blast
  show ?thesis
  proof (cases "truthy (timer_mode (settings s)) \<and> truthy (auto_speed_increase (settings s)) \<and>
            fsub fa (fsub fa t (start_time session)) (last_speed_increase s) \<ge> 30")
    case True
    have "update_session fa t s = Inr (s\<lparr>current_session := Some (session\<lparr>moves_made := moves_made session + 1\<rparr>),
            current_speed := w, last_speed_increase := fsub fa t (start_time session)\<rparr>)"
      using Some True w(1) by (simp add: update_session_def s1_def Let_def)
    with w(2) show ?thesis by blast
  next
    case False
    have "update_session fa t s = Inr (s\<lparr>current_session := Some (session\<lparr>moves_made := moves_made session + 1\<rparr>),
            current_speed := current_speed s, last_speed_increase := last_speed_increase s\<rparr>)"
      using Some False
      by (cases "truthy (timer_mode (settings s))"; cases "truthy (auto_speed_increase (settings s))")
         (simp_all add: update_session_def Let_def)
    with assms show ?thesis by blast
  qed
qed

subsection \<open>The loop of food placement\<close>

lemma place_food_loop_step:
  assumes "1 \<le> field_height s" and "1 \<le> field_width s" and "a < 100"
  shows "place_food_loop a s =
     (if candidate s 0 \<notin> set (snake s)
      then Inr (s\<lparr>rng_pos := rng_pos s + 2, food := candidate s 0\<rparr>)
      else place_food_loop (a + 1) (s\<lparr>rng_pos := rng_pos s + 2\<rparr>))"
  using assms
  by (subst place_food_loop.simps) (simp add: randint_def candidate_def Let_def)

lemma place_food_loop_done: "100 \<le> a \<Longrightarrow> place_food_loop a s = Inr s"
  by (subst place_food_loop.simps) simp

lemma candidate_shift: "candidate (s\<lparr>rng_pos := rng_pos s + 2\<rparr>) i = candidate s (Suc i)"
  by (simp add: candidate_def add.commute add.left_commute)

lemma candidate_shift_Suc: "candidate (s\<lparr>rng_pos := Suc (Suc (rng_pos s))\<rparr>) i = candidate s (Suc i)"
  using candidate_shift[of s i] by simp

lemma place_food_loop_exhausted:
  assumes "1 \<le> field_height s" and "1 \<le> field_width s"
    and "a + n = 100"
    and "\<forall>i<n. candidate s i \<in> set (snake s)"
  shows "place_food_loop a s = Inr (s\<lparr>rng_pos := rng_pos s + 2 * n\<rparr>)"
  using assms
proof (induction n arbitrary: a s)
  case 0
  then show ?case by (simp add: place_food_loop_done)
next
  case (Suc n)
  let ?s = "s\<lparr>rng_pos := rng_pos s + 2\<rparr>"
  have a: "a < 100" using Suc.prems(3) by simp
  have c0: "candidate s 0 \<in> set (snake s)" using Suc.prems(4) by simp
  have rest: "\<forall>i<n. candidate ?s i \<in> set (snake ?s)"
    using Suc.prems(4) by (simp add: candidate_shift_Suc)
  have "place_food_loop (a + 1) ?s = Inr (?s\<lparr>rng_pos := rng_pos ?s + 2 * n\<rparr>)"
    using Suc.prems(1,2,3) rest by (intro Suc.IH) simp_all
  then show ?case
    using place_food_loop_step[OF Suc.prems(1,2) a] c0 by simp
qed

lemma place_food_loop_found:
  assumes "1 \<le> field_height s" and "1 \<le> field_width s"
    and "a + j < 100"
    and "candidate s j \<notin> set (snake s)"
    and "\<forall>i<j. candidate s i \<in> set (snake s)"
  shows "place_food_loop a s = Inr (s\<lparr>rng_pos := rng_pos s + 2 * (j + 1), food := candidate s j\<rparr>)"
  using assms
proof (induction j arbitrary: a s)
  case 0
  then show ?case using place_food_loop_step[of s a] by simp
next
  case (Suc j)
  let ?s = "s\<lparr>rng_pos := rng_pos s + 2\<rparr>"
  have a: "a < 100" using Suc.prems(3) by simp
  have c0: "candidate s 0 \<in> set (snake s)" using Suc.prems(5) by simp
  have rest: "\<forall>i<j. candidate ?s i \<in> set (snake ?s)"
    using Suc.prems(5) by (simp add: candidate_shift_Suc)
  have "place_food_loop (a + 1) ?s =
      Inr (?s\<lparr>rng_pos := rng_pos ?s + 2 * (j + 1), food := candidate ?s j\<rparr>)"
    using Suc.prems(1,2,3,4) rest by (intro Suc.IH) (simp_all add: candidate_shift_Suc)
  then show ?case
    using place_food_loop_step[OF Suc.prems(1,2) a] c0 by (simp add: candidate_shift_Suc)
qed

lemma place_food_shape:
  assumes "1 \<le> field_height s" and "1 \<le> field_width s"
  shows "\<exists>f p. place_food s = Inr (s\<lparr>food := f, rng_pos := p\<rparr>) \<and> p \<le> rng_pos s + 200 \<and>
           (if \<forall>i<100. candidate s i \<in> set (snake s) then f = food s
            else f \<notin> set (snake s))"
proof (cases "\<forall>i<100. candidate s i \<in> set (snake s)")
  case True
  have "place_food_loop 0 s = Inr (s\<lparr>rng_pos := rng_pos s + 2 * 100\<rparr>)"
    using assms True by (intro place_food_loop_exhausted) simp_all
  then have "place_food s = Inr (s\<lparr>food := food s, rng_pos := rng_pos s + 200\<rparr>)"
    by (simp add: place_food_def)
  then show ?thesis using True by force
next
  case False
  then have ex: "\<exists>j. j < 100 \<and> candidate s j \<notin> set (snake s)" by blast
  define j where "j = (LEAST j. j < 100 \<and> candidate s j \<notin> set (snake s))"
  have j: "j < 100" "candidate s j \<notin> set (snake s)"
    using LeastI_ex[OF ex] by (simp_all add: j_def)
  have before: "\<forall>i<j. candidate s i \<in> set (snake s)"
  proof (intro allI impI)
    fix i assume "i < j"
    then have "\<not> (i < 100 \<and> candidate s i \<notin> set (snake s))"
      unfolding j_def by (rule not_less_Least)
    moreover have "i < 100" using \<open>i < j\<close> j(1) by simp
    ultimately show "candidate s i \<in> set (snake s)" by blast
  qed
  have "place_food_loop 0 s = Inr (s\<lparr>rng_pos := rng_pos s + 2 * (j + 1), food := candidate s j\<rparr>)"
    using assms j before by (intro place_food_loop_found) simp_all
  then have pf: "place_food s = Inr (s\<lparr>food := candidate s j, rng_pos := rng_pos s + 2 * (j + 1)\<rparr>)"
    by (simp add: place_food_def)
  have le: "rng_pos s + 2 * (j + 1) \<le> rng_pos s + 200" using j(1) by simp
  have "place_food s = Inr (s\<lparr>food := candidate s j, rng_pos := rng_pos s + 2 * (j + 1)\<rparr>) \<and>
      rng_pos s + 2 * (j + 1) \<le> rng_pos s + 200 \<and>
      (if \<forall>i<100. candidate s i \<in> set (snake s) then candidate s j = food s
       else candidate s j \<notin> set (snake s))"
    using pf le j(2) by (simp only: if_not_P[OF False] simp_thms)
  then show ?thesis by blast
qed

lemma candidate_cong:
  assumes "rng a = rng b" and "rng_pos a = rng_pos b"
    and "field_height a = field_height b" and "field_width a = field_width b"
  shows "candidate a i = candidate b i"
  using assms by (simp add: candidate_def)

subsection \<open>The branches of a tick\<close>

lemma eat_food_after:
  assumes "place_food (s\<lparr>score := score s + 10, foods_eaten := foods_eaten s + 1\<rparr>) =
             Inr (s\<lparr>score := score s + 10, foods_eaten := foods_eaten s + 1,
                    food := f, rng_pos := p\<rparr>)"
    and "numeric (current_speed s)"
  shows "\<exists>w ev. numeric w \<and>
           eat_food fa s = Inr (s\<lparr>score := score s + 10, foods_eaten := foods_eaten s + 1,
                                food := f, rng_pos := p, current_speed := w, events := ev\<rparr>)"
proof -
  define s2 where "s2 = s\<lparr>score := score s + 10, foods_eaten := foods_eaten s + 1,
                           food := f, rng_pos := p\<rparr>"
  have n2: "numeric (current_speed s2)" using assms(2) by (simp add: s2_def)
  obtain w0 where w0: "speed_up fa 40 3 s2 = Inr (s2\<lparr>current_speed := w0\<rparr>)" "numeric w0"
    using speed_up_numeric[OF n2] by blast
  define w where "w = (if truthy (auto_speed_increase (settings s)) then w0 else current_speed s)"
  have nw: "numeric w" using w0(2) assms(2) by (simp add: w_def)
  define ev where "ev = events s @ (if on_food_eaten s then [FoodEaten] else []) @
      (if on_score_changed s then [ScoreChanged (score s + 10)] else [])"
  have "eat_food fa s = Inr (s\<lparr>score := score s + 10, foods_eaten := foods_eaten s + 1,
                                food := f, rng_pos := p, current_speed := w, events := ev\<rparr>)"
  proof (cases "truthy (auto_speed_increase (settings s))")
    case True
    then show ?thesis
      by (simp add: eat_food_def Let_def assms(1) w0(1)[unfolded s2_def] w_def ev_def)
  next
    case False
    then show ?thesis
      by (simp add: eat_food_def Let_def assms(1) w_def ev_def)
  qed
  with nw show ?thesis by blast
qed

lemma tick_due:
  assumes "\<not> paused s" and "\<not> game_over s"
    and "py_truediv fa (current_speed s) 1000 = Inr interval"
    and "\<not> fsub fa now (last_update_time s) < interval"
    and "snake s = head # body"
  shows "\<exists>cs w l. numeric w \<and>
     update_game_logic fa now s =
       (let s2 = s\<lparr>last_update_time := now, current_session := cs, current_speed := w,
                    last_speed_increase := l, direction := next_direction s\<rparr>;
            new_head = point_add head (next_direction s)
        in if point_y new_head < 0 \<or> field_height s \<le> point_y new_head \<or>
              point_x new_head < 0 \<or> field_width s \<le> point_x new_head \<or>
              new_head \<in> set (snake s)
           then Inr (end_game s2)
           else if new_head = food s then eat_food fa (s2\<lparr>snake := new_head # snake s\<rparr>)
           else Inr (s2\<lparr>snake := butlast (new_head # snake s)\<rparr>))"
proof -
  have "numeric (current_speed (s\<lparr>last_update_time := now\<rparr>))"
    using assms(3) py_truediv_numeric by simp
  from update_session_shape[OF this, where t = now and fa = fa]
  obtain cs w l where u: "update_session fa now (s\<lparr>last_update_time := now\<rparr>) =
      Inr (s\<lparr>last_update_time := now, current_session := cs, current_speed := w,
             last_speed_increase := l\<rparr>)" and w: "numeric w"
    by blast
  have "update_game_logic fa now s =
       (let s2 = s\<lparr>last_update_time := now, current_session := cs, current_speed := w,
                    last_speed_increase := l, direction := next_direction s\<rparr>;
            new_head = point_add head (next_direction s)
        in if point_y new_head < 0 \<or> field_height s \<le> point_y new_head \<or>
              point_x new_head < 0 \<or> field_width s \<le> point_x new_head \<or>
              new_head \<in> set (snake s)
           then Inr (end_game s2)
           else if new_head = food s then eat_food fa (s2\<lparr>snake := new_head # snake s\<rparr>)
           else Inr (s2\<lparr>snake := butlast (new_head # snake s)\<rparr>))"
    using assms u by (simp add: update_game_logic_def Let_def not_le not_less)
  with w show ?thesis by blast
qed

lemma tick_due_summary:
  assumes "\<not> paused s" and "\<not> game_over s"
    and "py_truediv fa (current_speed s) 1000 = Inr interval"
    and "\<not> fsub fa now (last_update_time s) < interval"
    and "snake s = head # body"
    and "nh = point_add head (next_direction s)"
  shows "\<exists>s'. update_game_logic fa now s = Inr s' \<and> direction s' = next_direction s \<and>
     last_update_time s' = now \<and>
     (if point_y nh < 0 \<or> field_height s \<le> point_y nh \<or>
         point_x nh < 0 \<or> field_width s \<le> point_x nh \<or> nh \<in> set (snake s)
      then game_over s' \<and> snake s' = snake s \<and> score s' = score s \<and> food s' = food s
      else if nh = food s
      then \<not> game_over s' \<and> snake s' = nh # snake s \<and> score s' = score s + 10 \<and>
           (if \<forall>i<100. candidate s i \<in> set (nh # snake s) then food s' = food s
            else food s' \<notin> set (nh # snake s))
      else \<not> game_over s' \<and> snake s' = nh # butlast (snake s) \<and> score s' = score s \<and>
           food s' = food s)"
proof -
  obtain cs w l where w: "numeric w" and u: "update_game_logic fa now s =
       (let s2 = s\<lparr>last_update_time := now, current_session := cs, current_speed := w,
                    last_speed_increase := l, direction := next_direction s\<rparr>;
            new_head = point_add head (next_direction s)
        in if point_y new_head < 0 \<or> field_height s \<le> point_y new_head \<or>
              point_x new_head < 0 \<or> field_width s \<le> point_x new_head \<or>
              new_head \<in> set (snake s)
           then Inr (end_game s2)
           else if new_head = food s then eat_food fa (s2\<lparr>snake := new_head # snake s\<rparr>)
           else Inr (s2\<lparr>snake := butlast (new_head # snake s)\<rparr>))"
    using tick_due[OF assms(1-5)] by blast
  define s2 where "s2 = s\<lparr>last_update_time := now, current_session := cs, current_speed := w,
                    last_speed_increase := l, direction := next_direction s\<rparr>"
  let ?collide = "point_y nh < 0 \<or> field_height s \<le> point_y nh \<or>
         point_x nh < 0 \<or> field_width s \<le> point_x nh \<or> nh \<in> set (snake s)"
  consider (hit) "?collide" | (eat) "\<not> ?collide" "nh = food s" | (move) "\<not> ?collide" "nh \<noteq> food s"
    by blast
  then show ?thesis
  proof cases
    case hit
    have "update_game_logic fa now s = Inr (end_game s2)"
      unfolding u using hit assms(6) by (simp add: Let_def s2_def)
    moreover have "direction (end_game s2) = next_direction s"
      "last_update_time (end_game s2) = now" "game_over (end_game s2)"
      "snake (end_game s2) = snake s" "score (end_game s2) = score s"
      "food (end_game s2) = food s"
      by (simp_all add: end_game_def s2_def Let_def)
    ultimately show ?thesis using hit by simp
  next
    case eat
    define s3 where "s3 = s2\<lparr>snake := nh # snake s\<rparr>"
    define s4 where "s4 = s3\<lparr>score := score s3 + 10, foods_eaten := foods_eaten s3 + 1\<rparr>"
    have dims: "1 \<le> field_height s4" "1 \<le> field_width s4"
      using eat(1) by (simp_all add: s4_def s3_def s2_def)
    obtain f p where pf: "place_food s4 = Inr (s4\<lparr>food := f, rng_pos := p\<rparr>)"
      and fd: "(if \<forall>i<100. candidate s4 i \<in> set (snake s4) then f = food s4
            else f \<notin> set (snake s4))"
      using place_food_shape[OF dims] by blast
    have n3: "numeric (current_speed s3)" using w by (simp add: s3_def s2_def)
    obtain w' ev where e: "eat_food fa s3 = Inr (s3\<lparr>score := score s3 + 10,
        foods_eaten := foods_eaten s3 + 1, food := f, rng_pos := p, current_speed := w',
        events := ev\<rparr>)"
      using eat_food_after[OF pf[unfolded s4_def] n3] by blast
    have c: "candidate s4 i = candidate s i" for i
      by (rule candidate_cong) (simp_all add: s4_def s3_def s2_def)
    have sn: "snake s4 = nh # snake s" "food s4 = food s"
      by (simp_all add: s4_def s3_def s2_def)
    have fd': "(if \<forall>i<100. candidate s i \<in> set (nh # snake s) then f = food s
            else f \<notin> set (nh # snake s))"
      using fd unfolding c sn .
    define s' where "s' = s3\<lparr>score := score s3 + 10,
        foods_eaten := foods_eaten s3 + 1, food := f, rng_pos := p, current_speed := w',
        events := ev\<rparr>"
    have r: "update_game_logic fa now s = Inr s'"
      unfolding u using eat assms(6) e by (simp add: Let_def s2_def s3_def s'_def)
    have fields: "direction s' = next_direction s" "\<not> game_over s'"
      "snake s' = nh # snake s" "score s' = score s + 10" "food s' = f"
      "last_update_time s' = now"
      using assms(2) by (simp_all add: s'_def s3_def s2_def)
    have inner: "(if \<forall>i<100. candidate s i \<in> set (nh # snake s) then food s' = food s
            else food s' \<notin> set (nh # snake s))"
      using fd' unfolding fields(5) .
    have "update_game_logic fa now s = Inr s' \<and> direction s' = next_direction s \<and>
       last_update_time s' = now \<and>
       (\<not> game_over s' \<and> snake s' = nh # snake s \<and> score s' = score s + 10 \<and>
           (if \<forall>i<100. candidate s i \<in> set (nh # snake s) then food s' = food s
            else food s' \<notin> set (nh # snake s)))"
      by (intro conjI) (fact r fields inner)+
    then show ?thesis
      unfolding if_not_P[OF eat(1)] if_P[OF eat(2)] by (rule exI)
  next
    case move
    define s' where "s' = s2\<lparr>snake := butlast (nh # snake s)\<rparr>"
    have "update_game_logic fa now s = Inr s'"
      unfolding u using move assms(6) by (simp add: Let_def s2_def s'_def)
    moreover have "direction s' = next_direction s" "last_update_time s' = now"
      "\<not> game_over s'"
      "snake s' = nh # butlast (snake s)" "score s' = score s" "food s' = food s"
      using assms(2,5) by (simp_all add: s'_def s2_def)
    ultimately show ?thesis using move by simp
  qed
qed

lemma tick_empty:
  assumes "\<not> paused s" and "\<not> game_over s"
    and "py_truediv fa (current_speed s) 1000 = Inr interval"
    and "\<not> fsub fa now (last_update_time s) < interval"
    and "snake s = []"
  shows "update_game_logic fa now s = Inl IndexError"
proof -
  have "numeric (current_speed (s\<lparr>last_update_time := now\<rparr>))"
    using assms(3) py_truediv_numeric by simp
  from update_session_shape[OF this, where t = now and fa = fa]
  obtain cs w l where u: "update_session fa now (s\<lparr>last_update_time := now\<rparr>) =
      Inr (s\<lparr>last_update_time := now, current_session := cs, current_speed := w,
             last_speed_increase := l\<rparr>)"
    by blast
  show ?thesis using assms u by (simp add: update_game_logic_def Let_def)
qed

lemma tick_type_error:
  assumes "\<not> paused s" and "\<not> game_over s" and "py_truediv fa (current_speed s) 1000 = Inl e"
  shows "update_game_logic fa now s = Inl e"
  using assms by (simp add: update_game_logic_def)

subsection \<open>Reset\<close>

lemma field_sizes_dims:
  assumes "field_sizes_getitem v = Inr field_info"
  shows "1 \<le> width field_info \<and> 1 \<le> height field_info"
proof (cases v)
  case (VStr k)
  then have "map_of FIELD_SIZES k = Some field_info"
    using assms by (simp split: option.splits)
  then have "(k, field_info) \<in> set FIELD_SIZES" by (rule map_of_SomeD)
  then show ?thesis by (auto simp: FIELD_SIZES_def)
qed (use assms in simp_all)

lemma reset_game_error:
  assumes "field_sizes_getitem (field_size (settings s)) = Inl e"
  shows "reset_game now s = Inl e"
  using assms by (simp add: reset_game_def calculate_field_dimensions_def)

lemma reset_game_shape:
  assumes "field_sizes_getitem (field_size (settings s)) = Inr field_info"
    and "cy = height field_info div 2" and "cx = width field_info div 2"
    and "body = [Point cy cx, Point cy (cx - 1), Point cy (cx - 2)]"
    and "s0 = s\<lparr>field_width := width field_info, field_height := height field_info\<rparr>"
  shows "\<exists>f p. reset_game now s =
      Inr (s\<lparr>field_width := width field_info, field_height := height field_info,
             snake := body, direction := RIGHT, next_direction := RIGHT, score := 0,
             game_over := False, paused := False, foods_eaten := 0,
             current_speed := initial_speed (settings s), last_speed_increase := 0,
             food := f, rng_pos := p,
             current_session := Some
               \<lparr>start_time = now, end_time = 0, session_score = 0,
                session_foods_eaten = 0, max_length = 3,
                session_field_size = field_size (settings s),
                session_difficulty = difficulty (settings s),
                moves_made = 0, pauses_count = 0\<rparr>\<rparr>) \<and>
      (if \<forall>i<100. candidate s0 i \<in> set body then f = food s else f \<notin> set body)"
proof -
  define s2 where "s2 = s\<lparr>field_width := width field_info, field_height := height field_info,
      snake := body, direction := RIGHT, next_direction := RIGHT, score := 0,
      game_over := False, paused := False, foods_eaten := 0,
      current_speed := initial_speed (settings s), last_speed_increase := 0\<rparr>"
  have dims: "1 \<le> field_height s2" "1 \<le> field_width s2"
    using field_sizes_dims[OF assms(1)] by (simp_all add: s2_def)
  obtain f p where pf: "place_food s2 = Inr (s2\<lparr>food := f, rng_pos := p\<rparr>)"
    and fd: "(if \<forall>i<100. candidate s2 i \<in> set (snake s2) then f = food s2
            else f \<notin> set (snake s2))"
    using place_food_shape[OF dims] by blast
  have c: "candidate s2 i = candidate s0 i" for i
    by (rule candidate_cong) (simp_all add: s2_def assms(5))
  have sn: "snake s2 = body" "food s2 = food s" by (simp_all add: s2_def)
  have fd': "(if \<forall>i<100. candidate s0 i \<in> set body then f = food s else f \<notin> set body)"
    using fd unfolding c sn .
  have "reset_game now s =
      Inr (s\<lparr>field_width := width field_info, field_height := height field_info,
             snake := body, direction := RIGHT, next_direction := RIGHT, score := 0,
             game_over := False, paused := False, foods_eaten := 0,
             current_speed := initial_speed (settings s), last_speed_increase := 0,
             food := f, rng_pos := p,
             current_session := Some
               \<lparr>start_time = now, end_time = 0, session_score = 0,
                session_foods_eaten = 0, max_length = 3,
                session_field_size = field_size (settings s),
                session_difficulty = difficulty (settings s),
                moves_made = 0, pauses_count = 0\<rparr>\<rparr>)"
    using assms(1) pf[unfolded s2_def]
    by (simp add: reset_game_def calculate_field_dimensions_def Let_def assms(2,3,4))
  with fd' show ?thesis by blast
qed

subsection \<open>Settings\<close>

lemma known_fields_mem:
  "''initial_speed'' \<in> known_fields" "''difficulty'' \<in> known_fields"
  "''show_grid'' \<in> known_fields" "''smooth_animation'' \<in> known_fields"
  "''sound_effects'' \<in> known_fields" "''theme'' \<in> known_fields"
  "''field_size'' \<in> known_fields" "''timer_mode'' \<in> known_fields"
  "''auto_speed_increase'' \<in> known_fields" "''vibration'' \<in> known_fields"
  by (simp_all add: known_fields_def)

lemma to_dict_lookup:
  "to_dict g ''initial_speed'' = Some (initial_speed g)"
  "to_dict g ''difficulty'' = Some (difficulty g)"
  "to_dict g ''show_grid'' = Some (show_grid g)"
  "to_dict g ''smooth_animation'' = Some (smooth_animation g)"
  "to_dict g ''sound_effects'' = Some (sound_effects g)"
  "to_dict g ''theme'' = Some (theme g)"
  "to_dict g ''field_size'' = Some (field_size g)"
  "to_dict g ''timer_mode'' = Some (timer_mode g)"
  "to_dict g ''auto_speed_increase'' = Some (auto_speed_increase g)"
  "to_dict g ''vibration'' = Some (vibration g)"
  by (simp_all add: to_dict_def)

lemma to_dict_unknown: "k \<notin> known_fields \<Longrightarrow> to_dict g k = None"
  by (simp add: to_dict_def known_fields_def)

lemma kwarg_known:
  "k \<in> known_fields \<Longrightarrow>
     kwarg (data |` known_fields) k v = (case data k of None \<Rightarrow> v | Some w \<Rightarrow> w)"
  by (simp add: kwarg_def)

lemma from_dict_eq:
  "from_dict data =
    Inr \<lparr>initial_speed = (case data ''initial_speed'' of None \<Rightarrow> VInt 150 | Some w \<Rightarrow> w),
         difficulty = (case data ''difficulty'' of None \<Rightarrow> VStr ''Medium'' | Some w \<Rightarrow> w),
         show_grid = (case data ''show_grid'' of None \<Rightarrow> VBool True | Some w \<Rightarrow> w),
         smooth_animation = (case data ''smooth_animation'' of None \<Rightarrow> VBool True | Some w \<Rightarrow> w),
         sound_effects = (case data ''sound_effects'' of None \<Rightarrow> VBool False | Some w \<Rightarrow> w),
         theme = (case data ''theme'' of None \<Rightarrow> VStr ''Classic'' | Some w \<Rightarrow> w),
         field_size = (case data ''field_size'' of None \<Rightarrow> VStr ''Medium'' | Some w \<Rightarrow> w),
         timer_mode = (case data ''timer_mode'' of None \<Rightarrow> VBool True | Some w \<Rightarrow> w),
         auto_speed_increase =
           (case data ''auto_speed_increase'' of None \<Rightarrow> VBool True | Some w \<Rightarrow> w),
         vibration = (case data ''vibration'' of None \<Rightarrow> VBool True | Some w \<Rightarrow> w)\<rparr>"
proof -
  have d: "dom (data |` known_fields) \<subseteq> known_fields" by simp
  show ?thesis
    unfolding from_dict_def Let_def GameSettings_init_def if_P[OF d]
      kwarg_known[OF known_fields_mem(1)] kwarg_known[OF known_fields_mem(2)]
      kwarg_known[OF known_fields_mem(3)] kwarg_known[OF known_fields_mem(4)]
      kwarg_known[OF known_fields_mem(5)] kwarg_known[OF known_fields_mem(6)]
      kwarg_known[OF known_fields_mem(7)] kwarg_known[OF known_fields_mem(8)]
      kwarg_known[OF known_fields_mem(9)] kwarg_known[OF known_fields_mem(10)]
    by (rule refl)
qed

lemma from_dict_to_dict: "from_dict (to_dict g) = Inr g"
  unfolding from_dict_eq to_dict_lookup option.case by simp

lemma from_dict_fields:
  assumes "from_dict data = Inr g"
  shows "initial_speed g = (case data ''initial_speed'' of None \<Rightarrow> VInt 150 | Some w \<Rightarrow> w)"
    and "difficulty g = (case data ''difficulty'' of None \<Rightarrow> VStr ''Medium'' | Some w \<Rightarrow> w)"
    and "show_grid g = (case data ''show_grid'' of None \<Rightarrow> VBool True | Some w \<Rightarrow> w)"
    and "smooth_animation g = (case data ''smooth_animation'' of None \<Rightarrow> VBool True | Some w \<Rightarrow> w)"
    and "sound_effects g = (case data ''sound_effects'' of None \<Rightarrow> VBool False | Some w \<Rightarrow> w)"
    and "theme g = (case data ''theme'' of None \<Rightarrow> VStr ''Classic'' | Some w \<Rightarrow> w)"
    and "field_size g = (case data ''field_size'' of None \<Rightarrow> VStr ''Medium'' | Some w \<Rightarrow> w)"
    and "timer_mode g = (case data ''timer_mode'' of None \<Rightarrow> VBool True | Some w \<Rightarrow> w)"
    and "auto_speed_increase g =
           (case data ''auto_speed_increase'' of None \<Rightarrow> VBool True | Some w \<Rightarrow> w)"
    and "vibration g = (case data ''vibration'' of None \<Rightarrow> VBool True | Some w \<Rightarrow> w)"
proof -
  note g = assms[unfolded from_dict_eq, THEN Inr_inject, symmetric]
  show "initial_speed g = (case data ''initial_speed'' of None \<Rightarrow> VInt 150 | Some w \<Rightarrow> w)"
    by (subst g) simp
  show "difficulty g = (case data ''difficulty'' of None \<Rightarrow> VStr ''Medium'' | Some w \<Rightarrow> w)"
    by (subst g) simp
  show "show_grid g = (case data ''show_grid'' of None \<Rightarrow> VBool True | Some w \<Rightarrow> w)"
    by (subst g) simp
  show "smooth_animation g = (case data ''smooth_animation'' of None \<Rightarrow> VBool True | Some w \<Rightarrow> w)"
    by (subst g) simp
  show "sound_effects g = (case data ''sound_effects'' of None \<Rightarrow> VBool False | Some w \<Rightarrow> w)"
    by (subst g) simp
  show "theme g = (case data ''theme'' of None \<Rightarrow> VStr ''Classic'' | Some w \<Rightarrow> w)"
    by (subst g) simp
  show "field_size g = (case data ''field_size'' of None \<Rightarrow> VStr ''Medium'' | Some w \<Rightarrow> w)"
    by (subst g) simp
  show "timer_mode g = (case data ''timer_mode'' of None \<Rightarrow> VBool True | Some w \<Rightarrow> w)"
    by (subst g) simp
  show "auto_speed_increase g =
           (case data ''auto_speed_increase'' of None \<Rightarrow> VBool True | Some w \<Rightarrow> w)"
    by (subst g) simp
  show "vibration g = (case data ''vibration'' of None \<Rightarrow> VBool True | Some w \<Rightarrow> w)"
    by (subst g) simp
qed

lemma default_fields:
  "initial_speed GameSettings_default = VInt 150"
  "difficulty GameSettings_default = VStr ''Medium''"
  "show_grid GameSettings_default = VBool True"
  "smooth_animation GameSettings_default = VBool True"
  "sound_effects GameSettings_default = VBool False"
  "theme GameSettings_default = VStr ''Classic''"
  "field_size GameSettings_default = VStr ''Medium''"
  "timer_mode GameSettings_default = VBool True"
  "auto_speed_increase GameSettings_default = VBool True"
  "vibration GameSettings_default = VBool True"
  by (simp_all add: GameSettings_default_def)

lemma to_dict_from_dict_known:
  assumes "from_dict data = Inr g"
  shows "to_dict g ''initial_speed'' =
      (to_dict GameSettings_default ++ (data |` known_fields)) ''initial_speed''"
    and "to_dict g ''difficulty'' =
      (to_dict GameSettings_default ++ (data |` known_fields)) ''difficulty''"
    and "to_dict g ''show_grid'' =
      (to_dict GameSettings_default ++ (data |` known_fields)) ''show_grid''"
    and "to_dict g ''smooth_animation'' =
      (to_dict GameSettings_default ++ (data |` known_fields)) ''smooth_animation''"
    and "to_dict g ''sound_effects'' =
      (to_dict GameSettings_default ++ (data |` known_fields)) ''sound_effects''"
    and "to_dict g ''theme'' =
      (to_dict GameSettings_default ++ (data |` known_fields)) ''theme''"
    and "to_dict g ''field_size'' =
      (to_dict GameSettings_default ++ (data |` known_fields)) ''field_size''"
    and "to_dict g ''timer_mode'' =
      (to_dict GameSettings_default ++ (data |` known_fields)) ''timer_mode''"
    and "to_dict g ''auto_speed_increase'' =
      (to_dict GameSettings_default ++ (data |` known_fields)) ''auto_speed_increase''"
    and "to_dict g ''vibration'' =
      (to_dict GameSettings_default ++ (data |` known_fields)) ''vibration''"
  by (simp_all add: map_add_def to_dict_lookup from_dict_fields[OF assms] default_fields
      known_fields_mem split: option.splits)

lemma to_dict_from_dict:
  assumes "from_dict data = Inr g"
  shows "to_dict g = to_dict GameSettings_default ++ (data |` known_fields)"
proof (rule ext)
  fix k
  show "to_dict g k = (to_dict GameSettings_default ++ (data |` known_fields)) k"
  proof (cases "k \<in> known_fields")
    case True
    then have "k = ''initial_speed'' \<or> k = ''difficulty'' \<or> k = ''show_grid'' \<or>
        k = ''smooth_animation'' \<or> k = ''sound_effects'' \<or> k = ''theme'' \<or>
        k = ''field_size'' \<or> k = ''timer_mode'' \<or> k = ''auto_speed_increase'' \<or>
        k = ''vibration''"
      unfolding known_fields_def insert_iff empty_iff by (simp only: simp_thms)
    then show ?thesis
      using to_dict_from_dict_known[OF assms] by (elim disjE) (simp_all only:)
  next
    case False
    then show ?thesis
      by (simp add: to_dict_unknown map_add_def restrict_map_def)
  qed
qed

subsection \<open>The score ledger\<close>






















subsection \<open>The example states\<close>

lemma exact_simps [simp]: "fsub exact x y = x - y" "fdiv exact x y = x / y"
  by (simp_all add: exact_def)

lemma double_bound: "(2::int) ^ 20 < 2 ^ 1024 - 2 ^ 970"
proof -
  have "(2::int) ^ 20 + 2 ^ 970 \<le> 2 ^ 970 + 2 ^ 970"
    by (intro add_right_mono power_increasing) simp_all
  also have "\<dots> = 2 ^ 971" by simp
  also have "\<dots> < 2 ^ 1024" by (intro power_strict_increasing) simp_all
  finally show ?thesis by simp
qed

lemma to_float_exact [simp]: "\<bar>n\<bar> \<le> 1000000 \<Longrightarrow> to_float exact n = Some (real_of_int n)"
  using double_bound by (simp add: exact_def)

lemma to_float_exact_large [simp]: "to_float exact huge = None"
proof -
  have "(2::int) ^ 1024 \<le> 2 ^ 1200" by (intro power_increasing) simp_all
  also have "\<dots> = (2 ^ 3) ^ 400" by (simp add: power_mult [symmetric])
  also have "\<dots> \<le> 10 ^ 400" by (intro power_mono) simp_all
  finally have "(2::int) ^ 1024 \<le> 10 ^ 400" .
  moreover have "(0::int) < 2 ^ 970" by simp
  ultimately have "\<not> \<bar>(10::int) ^ 400\<bar> < 2 ^ 1024 - 2 ^ 970" by linarith
  then show ?thesis unfolding exact_def huge_def by (simp only: float_arith.simps if_False)
qed

lemma spawned_fields:
  "field_width (spawned r) = 15" "field_height (spawned r) = 10"
  "snake (spawned r) = [Point 5 7, Point 5 6, Point 5 5]" "food (spawned r) = Point 5 8"
  "direction (spawned r) = RIGHT" "next_direction (spawned r) = RIGHT"
  "score (spawned r) = 0" "game_over (spawned r) = False" "paused (spawned r) = False"
  "current_speed (spawned r) = VInt 150" "last_update_time (spawned r) = 0"
  "rng (spawned r) = r" "rng_pos (spawned r) = 2" "state (spawned r) = PLAYING"
  by (simp_all add: spawned_def at_menu_def)

lemma unlucky_candidates: "candidate (spawned unlucky) i = Point 5 5"
  by (simp add: candidate_def spawned_def at_menu_def unlucky_def)

lemma unlucky_all_taken:
  "set (map (candidate (spawned unlucky)) [0..<100]) \<subseteq> set (snake (spawned unlucky))"
  by (auto simp: unlucky_candidates) (simp add: spawned_def)

lemma lucky_candidate_0: "candidate (spawned lucky) 0 = Point 5 0"
  by (simp add: candidate_def spawned_def at_menu_def lucky_def)

lemma place_food_first:
  assumes "1 \<le> field_height x" and "1 \<le> field_width x"
    and "candidate x 0 \<notin> set (snake x)"
  shows "place_food x = Inr (x\<lparr>rng_pos := rng_pos x + 2, food := candidate x 0\<rparr>)"
  using place_food_loop_step[OF assms(1,2), of 0] assms(3) by (simp add: place_food_def)

lemma place_food_unlucky:
  assumes "rng x = unlucky" and "rng_pos x = 2" and "field_height x = 10"
    and "field_width x = 15" and "Point 5 5 \<in> set (snake x)"
  shows "place_food x = Inr (x\<lparr>rng_pos := 202\<rparr>)"
proof -
  have c: "candidate x i = Point 5 5" for i
    by (simp add: candidate_def assms unlucky_def)
  have "place_food_loop 0 x = Inr (x\<lparr>rng_pos := rng_pos x + 2 * 100\<rparr>)"
    using assms by (intro place_food_loop_exhausted) (simp_all add: c)
  then show ?thesis by (simp add: place_food_def assms(2))
qed

lemma engine_init_small: "engine_init small_files r = Inr (at_menu r)"
proof -
  have "load_settings small_files = GameSettings_default\<lparr>field_size := VStr ''Small''\<rparr>"
    unfolding load_settings_def small_files_def
    by (simp add: from_dict_eq GameSettings_default_def)
  then show ?thesis
    by (simp add: engine_init_def calculate_field_dimensions_def at_menu_def FIELD_SIZES_def
        GameSettings_default_def)
qed

lemma reset_at_menu:
  assumes "r 0 = 5" and "r 1 = 8"
  shows "reset_game 100 ((at_menu r)\<lparr>state := PLAYING\<rparr>) = Inr (spawned r)"
proof -
  define x where "x = (at_menu r)\<lparr>state := PLAYING, field_width := 15, field_height := 10,
      snake := [Point 5 7, Point 5 6, Point 5 5], direction := RIGHT, next_direction := RIGHT,
      score := 0, game_over := False, paused := False, foods_eaten := 0,
      current_speed := VInt 150, last_speed_increase := 0\<rparr>"
  have c: "candidate x 0 = Point 5 8"
    using assms by (simp add: candidate_def x_def at_menu_def)
  have "place_food x = Inr (x\<lparr>rng_pos := rng_pos x + 2, food := candidate x 0\<rparr>)"
    by (rule place_food_first) (simp_all add: c, simp_all add: x_def at_menu_def)
  then have p: "place_food x = Inr (x\<lparr>rng_pos := 2, food := Point 5 8\<rparr>)"
    by (simp add: c) (simp add: x_def at_menu_def)
  show ?thesis
    using p[unfolded x_def]
    by (simp add: reset_game_def calculate_field_dimensions_def Let_def FIELD_SIZES_def
        at_menu_def spawned_def GameSettings_default_def)
qed

lemma select_at_menu:
  assumes "r 0 = 5" and "r 1 = 8"
  shows "handle_menu_navigation ''select'' 100 (at_menu r) = Inr (False, spawned r)"
proof -
  have "menu_index (at_menu r) = 0" by (simp add: at_menu_def)
  then show ?thesis
    by (simp add: handle_menu_navigation_def reset_at_menu[OF assms])
qed

lemma tick_unlucky: "update_game_logic exact 101 (spawned unlucky) = Inr fed"
  by (simp add: update_game_logic_def update_session_def eat_food_def speed_up_def
      point_add_def Let_def spawned_def at_menu_def GameSettings_default_def fed_def
      place_food_unlucky)

lemma fed_fields:
  "field_width fed = 15" "field_height fed = 10"
  "snake fed = [Point 5 8, Point 5 7, Point 5 6, Point 5 5]" "food fed = Point 5 8"
  "direction fed = RIGHT" "next_direction fed = RIGHT" "score fed = 10"
  "game_over fed = False" "paused fed = False" "current_speed fed = VInt 147"
  "last_update_time fed = 101"
  by (simp_all add: fed_def spawned_fields)

lemmas run_defs =
  update_game_logic_def update_session_def end_game_def point_add_def Let_def
  handle_direction_input_def opposite_def session_at_def GameSettings_default_def
  at_menu_def spawned_def fed_def climbed_def crossed_def descended_def trapped_def
  trapped_after_def

lemma run_to_trapped:
  "update_game_logic exact 102 (snd (handle_direction_input UP fed)) = Inr climbed"
  "update_game_logic exact 103 (snd (handle_direction_input RIGHT climbed)) = Inr crossed"
  "update_game_logic exact 104 (snd (handle_direction_input DOWN crossed)) = Inr descended"
  "snd (handle_direction_input LEFT descended) = trapped"
  by (simp_all add: run_defs)

lemma trapped_fields:
  "paused trapped = False" "game_over trapped = False" "current_speed trapped = VInt 147"
  "last_update_time trapped = 104" "next_direction trapped = LEFT"
  "snake trapped = [Point 5 9, Point 4 9, Point 4 8, Point 5 8]" "food trapped = Point 5 8"
  "score trapped = 10"
  by (simp_all add: trapped_def descended_def crossed_def climbed_def fed_fields)

lemma tick_trapped: "update_game_logic exact 105 trapped = Inr trapped_after"
  by (simp add: run_defs)


lemma double_bound_real: "(1000000::real) < 2 ^ 1024 - 2 ^ 970"
proof -
  have "(1000000::real) \<le> 2 ^ 20" by simp
  also have "\<dots> = real_of_int (2 ^ 20)" by simp
  also have "\<dots> < real_of_int (2 ^ 1024 - 2 ^ 970)"
    using double_bound by (simp only: of_int_less_iff)
  finally show ?thesis by simp
qed

lemma int_truediv_exact [simp]:
  "\<bar>real_of_int a / real_of_int b\<bar> \<le> 1000000 \<Longrightarrow>
     int_truediv exact a b = Some (real_of_int a / real_of_int b)"
  using double_bound_real by (simp add: exact_def)

lemma int_truediv_exact_large [simp]: "int_truediv exact huge 40 = None"
proof -
  have "(2::int) ^ 1024 * 40 \<le> 2 ^ 1024 * 2 ^ 6" by simp
  also have "\<dots> = 2 ^ 1030" by (simp add: power_add [symmetric])
  also have "\<dots> \<le> 2 ^ 1200" by (intro power_increasing) simp_all
  also have "\<dots> = (2 ^ 3) ^ 400" by (simp add: power_mult [symmetric])
  also have "\<dots> \<le> 10 ^ 400" by (intro power_mono) simp_all
  finally have "(2::int) ^ 1024 * 40 \<le> huge" by (simp add: huge_def)
  then have "real_of_int (2 ^ 1024 * 40) \<le> real_of_int huge" by (simp only: of_int_le_iff)
  then have "(2::real) ^ 1024 \<le> real_of_int huge / 40" by simp
  moreover have "(0::real) < 2 ^ 970" by simp
  ultimately have "\<not> \<bar>real_of_int huge / real_of_int 40\<bar> < 2 ^ 1024 - 2 ^ 970" by simp
  then show ?thesis unfolding exact_def by (simp only: float_arith.simps if_False)
qed








lemma utf8_anonymous:
  "utf8 anonymous =
     [CHR 0xD0, CHR 0x90, CHR 0xD0, CHR 0xBD, CHR 0xD0, CHR 0xBE, CHR 0xD0, CHR 0xBD,
      CHR 0xD0, CHR 0xB8, CHR 0xD0, CHR 0xBC]"
  by (simp add: utf8_def utf8_char_def anonymous_def char_of_def bit_Suc_0_iff)

section \<open>The claims\<close>

text \<open>
  C1.  In a state that is neither paused nor over, on a tick that is due, if the head
  moved by the direction the tick applies (the buffered \<open>next_direction\<close>) leaves
  the field on any side, the tick returns a state with \<open>game_over\<close> set and the snake
  as it was; it also enters the name input state.
\<close>

theorem boundary_collision:
  assumes "\<not> paused s" and "\<not> game_over s"
    and "py_truediv fa (current_speed s) 1000 = Inr interval"
    and "\<not> fsub fa now (last_update_time s) < interval"
    and "snake s = head # body"
    and "new_head = point_add head (next_direction s)"
    and "point_y new_head < 0 \<or> field_height s \<le> point_y new_head \<or>
         point_x new_head < 0 \<or> field_width s \<le> point_x new_head"
  shows "\<exists>s'. update_game_logic fa now s = Inr s' \<and> game_over s' \<and> snake s' = snake s \<and>
           state s' = NAME_INPUT \<and> direction s' = next_direction s"
proof -
  obtain cs w l where u: "update_game_logic fa now s =
       Inr (end_game (s\<lparr>last_update_time := now, current_session := cs, current_speed := w,
                    last_speed_increase := l, direction := next_direction s\<rparr>))"
    using tick_due[OF assms(1-5)] assms(6,7) by (auto simp: Let_def)
  show ?thesis
    unfolding u by (simp add: end_game_def Let_def)
qed

theorem boundary_collision_witness:
  "\<not> paused (at_edge) \<and> \<not> game_over at_edge \<and>
   py_truediv exact (current_speed at_edge) 1000 = Inr (3 / 20) \<and>
   \<not> fsub exact 101 (last_update_time at_edge) < 3 / 20 \<and>
   snake at_edge = Point 5 14 # [Point 5 13, Point 5 12] \<and>
   Point 5 15 = point_add (Point 5 14) (next_direction at_edge) \<and>
   field_width at_edge \<le> point_x (Point 5 15) \<and>
   (\<exists>s'. update_game_logic exact 101 at_edge = Inr s' \<and> game_over s' \<and>
      snake s' = [Point 5 14, Point 5 13, Point 5 12] \<and> state s' = NAME_INPUT \<and>
      direction s' = RIGHT)"
proof -
  have h: "\<not> paused at_edge" "\<not> game_over at_edge"
    "py_truediv exact (current_speed at_edge) 1000 = Inr (3 / 20)"
    "\<not> fsub exact 101 (last_update_time at_edge) < 3 / 20"
    "snake at_edge = Point 5 14 # [Point 5 13, Point 5 12]"
    "Point 5 15 = point_add (Point 5 14) (next_direction at_edge)"
    "field_width at_edge \<le> point_x (Point 5 15)"
    by (simp_all add: at_edge_def spawned_fields point_add_def)
  have "\<exists>s'. update_game_logic exact 101 at_edge = Inr s' \<and> game_over s' \<and>
      snake s' = snake at_edge \<and> state s' = NAME_INPUT \<and> direction s' = next_direction at_edge"
    using h(7) by (intro boundary_collision[OF h(1-6)]) simp
  then show ?thesis using h by (simp add: at_edge_def spawned_fields)
qed

text \<open>
  C2, as amended.  On a field with at least one row and one column \<open>place_food\<close>
  returns after at most 100 passes (two random outcomes each).  When all 100 cells drawn
  are on the snake, no cell is accepted: the food stays where it was, and only the
  position in the random source has moved.  Otherwise the first cell drawn off the snake
  becomes the food.
\<close>

theorem place_food_bounded:
  assumes "1 \<le> field_height s" and "1 \<le> field_width s"
  shows "\<exists>s'. place_food s = Inr s' \<and> rng_pos s' \<le> rng_pos s + 2 * 100 \<and>
      ((\<forall>i<100. candidate s i \<in> set (snake s)) \<longrightarrow> s' = s\<lparr>rng_pos := rng_pos s + 2 * 100\<rparr>) \<and>
      (\<forall>j<100. candidate s j \<notin> set (snake s) \<and> (\<forall>i<j. candidate s i \<in> set (snake s)) \<longrightarrow>
          s' = s\<lparr>rng_pos := rng_pos s + 2 * (j + 1), food := candidate s j\<rparr>)"
proof -
  obtain f p where fp: "place_food s = Inr (s\<lparr>food := f, rng_pos := p\<rparr>)" "p \<le> rng_pos s + 200"
    using place_food_shape[OF assms] by blast
  have a: "s\<lparr>food := f, rng_pos := p\<rparr> = s\<lparr>rng_pos := rng_pos s + 2 * 100\<rparr>"
    if "\<forall>i<100. candidate s i \<in> set (snake s)"
  proof -
    have "place_food_loop 0 s = Inr (s\<lparr>rng_pos := rng_pos s + 2 * 100\<rparr>)"
      using assms that by (intro place_food_loop_exhausted) simp_all
    then show ?thesis using fp(1) by (simp add: place_food_def)
  qed
  have b: "s\<lparr>food := f, rng_pos := p\<rparr> = s\<lparr>rng_pos := rng_pos s + 2 * (j + 1), food := candidate s j\<rparr>"
    if "j < 100" "candidate s j \<notin> set (snake s)" "\<forall>i<j. candidate s i \<in> set (snake s)" for j
  proof -
    have "place_food_loop 0 s = Inr (s\<lparr>rng_pos := rng_pos s + 2 * (j + 1), food := candidate s j\<rparr>)"
      using assms that by (intro place_food_loop_found) simp_all
    then show ?thesis using fp(1) by (simp add: place_food_def)
  qed
  have "rng_pos (s\<lparr>food := f, rng_pos := p\<rparr>) \<le> rng_pos s + 2 * 100" using fp(2) by simp
  with fp(1) a b show ?thesis by blast
qed

theorem place_food_bounded_witness:
  "1 \<le> field_height (spawned unlucky) \<and> 1 \<le> field_width (spawned unlucky) \<and>
   set (map (candidate (spawned unlucky)) [0..<100]) \<subseteq> set (snake (spawned unlucky)) \<and>
   place_food (spawned unlucky) = Inr ((spawned unlucky)\<lparr>rng_pos := 202\<rparr>) \<and>
   1 \<le> field_height (spawned lucky) \<and> 1 \<le> field_width (spawned lucky) \<and>
   candidate (spawned lucky) 0 \<notin> set (snake (spawned lucky)) \<and>
   place_food (spawned lucky) = Inr ((spawned lucky)\<lparr>rng_pos := 4, food := Point 5 0\<rparr>)"
proof -
  have d: "1 \<le> field_height (spawned r)" "1 \<le> field_width (spawned r)" for r
    by (simp_all add: spawned_def at_menu_def)
  have taken: "\<forall>i<100. candidate (spawned unlucky) i \<in> set (snake (spawned unlucky))"
    by (simp add: unlucky_candidates) (simp add: spawned_def)
  have free: "candidate (spawned lucky) 0 \<notin> set (snake (spawned lucky))"
    by (simp add: lucky_candidate_0) (simp add: spawned_def)
  have p2: "rng_pos (spawned r) = 2" for r by (simp add: spawned_def)
  from place_food_bounded[OF d, of unlucky]
  obtain s1 where s1: "place_food (spawned unlucky) = Inr s1"
    and ex: "(\<forall>i<100. candidate (spawned unlucky) i \<in> set (snake (spawned unlucky))) \<longrightarrow>
         s1 = (spawned unlucky)\<lparr>rng_pos := rng_pos (spawned unlucky) + 2 * 100\<rparr>"
    by blast
  have 1: "place_food (spawned unlucky) = Inr ((spawned unlucky)\<lparr>rng_pos := 202\<rparr>)"
    using s1 ex taken by (simp add: p2)
  from place_food_bounded[OF d, of lucky]
  obtain s2 where s2: "place_food (spawned lucky) = Inr s2"
    and found: "\<forall>j<100. candidate (spawned lucky) j \<notin> set (snake (spawned lucky)) \<and>
         (\<forall>i<j. candidate (spawned lucky) i \<in> set (snake (spawned lucky))) \<longrightarrow>
         s2 = (spawned lucky)\<lparr>rng_pos := rng_pos (spawned lucky) + 2 * (j + 1),
                 food := candidate (spawned lucky) j\<rparr>"
    by blast
  have "s2 = (spawned lucky)\<lparr>rng_pos := rng_pos (spawned lucky) + 2 * (0 + 1),
                 food := candidate (spawned lucky) 0\<rparr>"
    using found[rule_format, of 0] free by simp
  then have 2: "place_food (spawned lucky) = Inr ((spawned lucky)\<lparr>rng_pos := 4, food := Point 5 0\<rparr>)"
    using s2 by (simp add: p2 lucky_candidate_0)
  show ?thesis using d unlucky_all_taken free 1 2 by blast
qed

text \<open>
  As the specification words it the property fails: with every one of the 100 cells drawn on the
  snake, the last cell drawn is (5, 5) and the food is still at (5, 8).
\<close>

theorem place_food_keeps_food_counterexample:
  "set (map (candidate (spawned unlucky)) [0..<100]) \<subseteq> set (snake (spawned unlucky)) \<and>
   place_food (spawned unlucky) = Inr ((spawned unlucky)\<lparr>rng_pos := 202\<rparr>) \<and>
   candidate (spawned unlucky) 99 = Point 5 5 \<and>
   food ((spawned unlucky)\<lparr>rng_pos := 202\<rparr>) = Point 5 8"
proof -
  have d: "1 \<le> field_height (spawned unlucky)" "1 \<le> field_width (spawned unlucky)"
    by (simp_all add: spawned_def at_menu_def)
  have taken: "\<forall>i<100. candidate (spawned unlucky) i \<in> set (snake (spawned unlucky))"
    by (simp add: unlucky_candidates) (simp add: spawned_def)
  have "place_food_loop 0 (spawned unlucky) =
      Inr ((spawned unlucky)\<lparr>rng_pos := rng_pos (spawned unlucky) + 2 * 100\<rparr>)"
    using d taken by (intro place_food_loop_exhausted) simp_all
  moreover have "rng_pos (spawned unlucky) = 2" by (simp add: spawned_def)
  ultimately have "place_food (spawned unlucky) = Inr ((spawned unlucky)\<lparr>rng_pos := 202\<rparr>)"
    by (simp add: place_food_def)
  moreover have "food ((spawned unlucky)\<lparr>rng_pos := 202\<rparr>) = Point 5 8"
    by (simp add: spawned_def)
  ultimately show ?thesis using unlucky_all_taken unlucky_candidates by blast
qed

text \<open>
  C3, as amended.  In a state that is neither paused nor over, on a tick that is due and
  on which the new head stays inside the field and off the snake: if the new head is the
  food cell, the snake is one cell longer and the score 10 higher; otherwise length and
  score are as before.
\<close>

theorem growth_law:
  assumes "\<not> paused s" and "\<not> game_over s"
    and "py_truediv fa (current_speed s) 1000 = Inr interval"
    and "\<not> fsub fa now (last_update_time s) < interval"
    and "snake s = head # body"
    and "nh = point_add head (next_direction s)"
    and "0 \<le> point_y nh" and "point_y nh < field_height s"
    and "0 \<le> point_x nh" and "point_x nh < field_width s"
    and "nh \<notin> set (snake s)"
  shows "\<exists>s'. update_game_logic fa now s = Inr s' \<and>
     (if nh = food s
      then length (snake s') = length (snake s) + 1 \<and> score s' = score s + 10
      else length (snake s') = length (snake s) \<and> score s' = score s)"
proof -
  have free: "\<not> (point_y nh < 0 \<or> field_height s \<le> point_y nh \<or>
         point_x nh < 0 \<or> field_width s \<le> point_x nh \<or> nh \<in> set (snake s))"
    using assms(7-11) by simp
  obtain s' where r: "update_game_logic fa now s = Inr s'"
    and c: "(if nh = food s
      then \<not> game_over s' \<and> snake s' = nh # snake s \<and> score s' = score s + 10 \<and>
           (if \<forall>i<100. candidate s i \<in> set (nh # snake s) then food s' = food s
            else food s' \<notin> set (nh # snake s))
      else \<not> game_over s' \<and> snake s' = nh # butlast (snake s) \<and> score s' = score s \<and>
           food s' = food s)"
    using tick_due_summary[OF assms(1-6)] unfolding if_not_P[OF free] by blast
  have "(if nh = food s
      then length (snake s') = length (snake s) + 1 \<and> score s' = score s + 10
      else length (snake s') = length (snake s) \<and> score s' = score s)"
  proof (cases "nh = food s")
    case True
    then show ?thesis using c by simp
  next
    case False
    then show ?thesis using c assms(5) by simp
  qed
  with r show ?thesis by blast
qed

theorem growth_law_witness:
  "\<not> paused (spawned lucky) \<and> \<not> game_over (spawned lucky) \<and>
   py_truediv exact (current_speed (spawned lucky)) 1000 = Inr (3 / 20) \<and>
   \<not> fsub exact 101 (last_update_time (spawned lucky)) < 3 / 20 \<and>
   snake (spawned lucky) = Point 5 7 # [Point 5 6, Point 5 5] \<and>
   Point 5 8 = point_add (Point 5 7) (next_direction (spawned lucky)) \<and>
   0 \<le> point_y (Point 5 8) \<and> point_y (Point 5 8) < field_height (spawned lucky) \<and>
   0 \<le> point_x (Point 5 8) \<and> point_x (Point 5 8) < field_width (spawned lucky) \<and>
   Point 5 8 \<notin> set (snake (spawned lucky)) \<and> Point 5 8 = food (spawned lucky) \<and>
   (\<exists>s'. update_game_logic exact 101 (spawned lucky) = Inr s' \<and> length (snake s') = 4 \<and>
      score s' = 10)"
proof -
  have h: "\<not> paused (spawned lucky)" "\<not> game_over (spawned lucky)"
    "py_truediv exact (current_speed (spawned lucky)) 1000 = Inr (3 / 20)"
    "\<not> fsub exact 101 (last_update_time (spawned lucky)) < 3 / 20"
    "snake (spawned lucky) = Point 5 7 # [Point 5 6, Point 5 5]"
    "Point 5 8 = point_add (Point 5 7) (next_direction (spawned lucky))"
    "0 \<le> point_y (Point 5 8)" "point_y (Point 5 8) < field_height (spawned lucky)"
    "0 \<le> point_x (Point 5 8)" "point_x (Point 5 8) < field_width (spawned lucky)"
    "Point 5 8 \<notin> set (snake (spawned lucky))"
    by (simp_all add: spawned_fields point_add_def)
  have f: "Point 5 8 = food (spawned lucky)" by (simp add: spawned_fields)
  have "\<exists>s'. update_game_logic exact 101 (spawned lucky) = Inr s' \<and>
      length (snake s') = length (snake (spawned lucky)) + 1 \<and>
      score s' = score (spawned lucky) + 10"
    using growth_law[OF h] unfolding if_P[OF f] .
  then have "\<exists>s'. update_game_logic exact 101 (spawned lucky) = Inr s' \<and> length (snake s') = 4 \<and>
      score s' = 10"
    by (simp add: spawned_fields eval_nat_numeral)
  then show ?thesis using h f by blast
qed

text \<open>
  As the specification words it the property fails when the food cell is a cell of the
  snake.  The run from \<open>spawned unlucky\<close> gets there: the food eaten at (5,8) is not
  replaced, the snake of four cells goes round a square, and the tick at time 105 has
  the food cell as its new head, which is the tail cell; it ends the game with the four
  cells and the score 10 it started with.
\<close>

theorem growth_law_counterexample:
  "update_game_logic exact 101 (spawned unlucky) = Inr fed \<and>
   update_game_logic exact 102 (snd (handle_direction_input UP fed)) = Inr climbed \<and>
   update_game_logic exact 103 (snd (handle_direction_input RIGHT climbed)) = Inr crossed \<and>
   update_game_logic exact 104 (snd (handle_direction_input DOWN crossed)) = Inr descended \<and>
   snd (handle_direction_input LEFT descended) = trapped \<and>
   \<not> paused trapped \<and> \<not> game_over trapped \<and>
   py_truediv exact (current_speed trapped) 1000 = Inr (147 / 1000) \<and>
   \<not> fsub exact 105 (last_update_time trapped) < 147 / 1000 \<and>
   point_add (hd (snake trapped)) (next_direction trapped) = food trapped \<and>
   length (snake trapped) = 4 \<and> score trapped = 10 \<and>
   update_game_logic exact 105 trapped = Inr trapped_after \<and>
   length (snake trapped_after) = 4 \<and> score trapped_after = 10 \<and> game_over trapped_after"
proof -
  have before: "\<not> paused trapped" "\<not> game_over trapped"
    "py_truediv exact (current_speed trapped) 1000 = Inr (147 / 1000)"
    "\<not> fsub exact 105 (last_update_time trapped) < 147 / 1000"
    "point_add (hd (snake trapped)) (next_direction trapped) = food trapped"
    "length (snake trapped) = 4" "score trapped = 10"
    by (simp_all add: trapped_fields point_add_def)
  have after: "length (snake trapped_after) = 4" "score trapped_after = 10"
    "game_over trapped_after"
    by (simp_all add: trapped_after_def trapped_fields)
  show ?thesis using tick_unlucky run_to_trapped before tick_trapped after by blast
qed

text \<open>
  C4.  \<open>handle_direction_input d\<close> returns False and changes nothing when the game
  is paused or over or \<open>d\<close> is the opposite, in the pairs UP with DOWN and LEFT with
  RIGHT, of the applied \<open>direction\<close> (whatever \<open>next_direction\<close> holds); otherwise it
  returns True and stores \<open>d\<close> in \<open>next_direction\<close>.  On the next due tick of a
  running game with a snake, an accepted \<open>d\<close> is the direction applied; after a
  rejected opposite the tick is the one that would have run without the call: it applies
  the direction that was buffered before, which is not \<open>d\<close> unless the buffer already
  held the opposite, and is the old direction when nothing else was buffered.
\<close>

theorem handle_direction_input_spec:
  "(paused s \<or> game_over s \<or> d = spec_opposite (direction s) \<longrightarrow>
      handle_direction_input d s = (False, s)) \<and>
   (\<not> paused s \<and> \<not> game_over s \<and> d \<noteq> spec_opposite (direction s) \<longrightarrow>
      handle_direction_input d s = (True, s\<lparr>next_direction := d\<rparr>)) \<and>
   (\<not> paused s \<and> \<not> game_over s \<and> py_truediv fa (current_speed s) 1000 = Inr interval \<and>
    \<not> fsub fa now (last_update_time s) < interval \<and> snake s \<noteq> [] \<longrightarrow>
      (\<exists>s'. update_game_logic fa now (snd (handle_direction_input d s)) = Inr s' \<and>
         (if d \<noteq> spec_opposite (direction s) then direction s' = d
          else update_game_logic fa now s = Inr s' \<and> direction s' = next_direction s \<and>
               (next_direction s \<noteq> spec_opposite (direction s) \<longrightarrow> direction s' \<noteq> d) \<and>
               (next_direction s = direction s \<longrightarrow> direction s' = direction s))))"
proof (intro conjI impI)
  have o: "opposite (direction s) = spec_opposite (direction s)"
    by (cases "direction s") (simp_all add: opposite_def)
  show "handle_direction_input d s = (False, s)"
    if "paused s \<or> game_over s \<or> d = spec_opposite (direction s)"
    using that by (auto simp: handle_direction_input_def o)
  show "handle_direction_input d s = (True, s\<lparr>next_direction := d\<rparr>)"
    if "\<not> paused s \<and> \<not> game_over s \<and> d \<noteq> spec_opposite (direction s)"
    using that by (simp add: handle_direction_input_def o)
  show "\<exists>s'. update_game_logic fa now (snd (handle_direction_input d s)) = Inr s' \<and>
         (if d \<noteq> spec_opposite (direction s) then direction s' = d
          else update_game_logic fa now s = Inr s' \<and> direction s' = next_direction s \<and>
               (next_direction s \<noteq> spec_opposite (direction s) \<longrightarrow> direction s' \<noteq> d) \<and>
               (next_direction s = direction s \<longrightarrow> direction s' = direction s))"
    if h: "\<not> paused s \<and> \<not> game_over s \<and> py_truediv fa (current_speed s) 1000 = Inr interval \<and>
      \<not> fsub fa now (last_update_time s) < interval \<and> snake s \<noteq> []"
  proof -
    obtain head body where sn: "snake s = head # body"
      using h by (cases "snake s") simp_all
    show ?thesis
    proof (cases "d = spec_opposite (direction s)")
      case True
      have same: "snd (handle_direction_input d s) = s"
        using True by (simp add: handle_direction_input_def o)
      have r: "\<not> paused s" "\<not> game_over s" "py_truediv fa (current_speed s) 1000 = Inr interval"
        "\<not> fsub fa now (last_update_time s) < interval"
        using h by simp_all
      obtain s' where "update_game_logic fa now s = Inr s'" "direction s' = next_direction s"
        using tick_due_summary[OF r sn refl] by blast
      then show ?thesis using True same by auto
    next
      case False
      let ?q = "s\<lparr>next_direction := d\<rparr>"
      have q: "snd (handle_direction_input d s) = ?q"
        using False h by (simp add: handle_direction_input_def o)
      have "\<not> paused ?q" "\<not> game_over ?q" "py_truediv fa (current_speed ?q) 1000 = Inr interval"
        "\<not> fsub fa now (last_update_time ?q) < interval" "snake ?q = head # body"
        using h sn by simp_all
      from tick_due_summary[OF this refl]
      obtain s' where "update_game_logic fa now ?q = Inr s'" "direction s' = next_direction ?q"
        by blast
      then show ?thesis using False q by auto
    qed
  qed
qed

theorem handle_direction_input_spec_witness:
  "direction turning = RIGHT \<and> next_direction turning = UP \<and>
   LEFT = spec_opposite (direction turning) \<and>
   handle_direction_input LEFT turning = (False, turning) \<and>
   \<not> paused turning \<and> \<not> game_over turning \<and>
   DOWN \<noteq> spec_opposite (direction turning) \<and>
   handle_direction_input DOWN turning = (True, turning\<lparr>next_direction := DOWN\<rparr>) \<and>
   py_truediv exact (current_speed turning) 1000 = Inr (3 / 20) \<and>
   \<not> fsub exact 101 (last_update_time turning) < 3 / 20 \<and> snake turning \<noteq> [] \<and>
   (\<exists>s'. update_game_logic exact 101 (snd (handle_direction_input DOWN turning)) = Inr s' \<and>
      direction s' = DOWN) \<and>
   (\<exists>s'. update_game_logic exact 101 (snd (handle_direction_input LEFT turning)) = Inr s' \<and>
      update_game_logic exact 101 turning = Inr s' \<and> direction s' = UP) \<and>
   next_direction (spawned lucky) = direction (spawned lucky) \<and>
   LEFT = spec_opposite (direction (spawned lucky)) \<and>
   (\<exists>s'. update_game_logic exact 101 (snd (handle_direction_input LEFT (spawned lucky))) = Inr s' \<and>
      direction s' = RIGHT)"
proof -
  note spec = handle_direction_input_spec
  have f: "direction turning = RIGHT" "next_direction turning = UP"
    by (simp_all add: turning_def spawned_fields)
  have o: "LEFT = spec_opposite (direction turning)" "DOWN \<noteq> spec_opposite (direction turning)"
    by (simp_all add: f)
  have h: "\<not> paused turning" "\<not> game_over turning"
    "py_truediv exact (current_speed turning) 1000 = Inr (3 / 20)"
    "\<not> fsub exact 101 (last_update_time turning) < 3 / 20" "snake turning \<noteq> []"
    by (simp_all add: turning_def spawned_fields)
  have 1: "handle_direction_input LEFT turning = (False, turning)"
    using spec[where s = turning and d = LEFT, THEN conjunct1] o(1) by blast
  have 2: "handle_direction_input DOWN turning = (True, turning\<lparr>next_direction := DOWN\<rparr>)"
    using spec[where s = turning and d = DOWN, THEN conjunct2, THEN conjunct1] o(2) h(1,2)
    by blast
  have 3: "\<exists>s'. update_game_logic exact 101 (snd (handle_direction_input DOWN turning)) = Inr s' \<and>
      direction s' = DOWN"
    using spec[where s = turning and d = DOWN and interval = "3 / 20" and now = 101
        and fa = exact, THEN conjunct2, THEN conjunct2, rule_format,
        OF conjI[OF h(1) conjI[OF h(2) conjI[OF h(3) conjI[OF h(4) h(5)]]]]]
    unfolding if_P[OF o(2)] .
  have n: "\<not> LEFT \<noteq> spec_opposite (direction turning)" using o(1) by simp
  have "\<exists>s'. update_game_logic exact 101 (snd (handle_direction_input LEFT turning)) = Inr s' \<and>
      update_game_logic exact 101 turning = Inr s' \<and> direction s' = next_direction turning"
    using spec[where s = turning and d = LEFT and interval = "3 / 20" and now = 101
        and fa = exact, THEN conjunct2, THEN conjunct2, rule_format,
        OF conjI[OF h(1) conjI[OF h(2) conjI[OF h(3) conjI[OF h(4) h(5)]]]]]
    unfolding if_not_P[OF n] by blast
  then have 4: "\<exists>s'. update_game_logic exact 101 (snd (handle_direction_input LEFT turning)) = Inr s' \<and>
      update_game_logic exact 101 turning = Inr s' \<and> direction s' = UP"
    by (simp add: f)
  have g: "next_direction (spawned lucky) = direction (spawned lucky)"
    "LEFT = spec_opposite (direction (spawned lucky))"
    by (simp_all add: spawned_fields)
  have k: "\<not> paused (spawned lucky)" "\<not> game_over (spawned lucky)"
    "py_truediv exact (current_speed (spawned lucky)) 1000 = Inr (3 / 20)"
    "\<not> fsub exact 101 (last_update_time (spawned lucky)) < 3 / 20" "snake (spawned lucky) \<noteq> []"
    by (simp_all add: spawned_fields)
  have m: "\<not> LEFT \<noteq> spec_opposite (direction (spawned lucky))" using g(2) by simp
  have "\<exists>s'. update_game_logic exact 101 (snd (handle_direction_input LEFT (spawned lucky))) = Inr s' \<and>
      direction s' = direction (spawned lucky)"
    using spec[where s = "spawned lucky" and d = LEFT and interval = "3 / 20" and now = 101
        and fa = exact, THEN conjunct2, THEN conjunct2, rule_format,
        OF conjI[OF k(1) conjI[OF k(2) conjI[OF k(3) conjI[OF k(4) k(5)]]]]]
    unfolding if_not_P[OF m] using g(1) by blast
  then have 5: "\<exists>s'. update_game_logic exact 101 (snd (handle_direction_input LEFT (spawned lucky))) = Inr s' \<and>
      direction s' = RIGHT"
    by (simp add: spawned_fields)
  show ?thesis using f o 1 h 2 3 4 g 5 by blast
qed

text \<open>
  C5.  \<open>reset_game\<close> either raises, which it does only when the configured field
  size is not a key of \<open>FIELD_SIZES\<close>, or returns a state whose three snake cells are
  pairwise distinct.  From a state whose snake cells are pairwise distinct,
  \<open>update_game_logic\<close> either raises, which it does only with the IndexError of
  an empty snake or with the error of the division \<^verbatim>\<open>current_speed / 1000.0\<close> (the
  TypeError of a speed that is no number, the OverflowError of an int too large for a
  float), or returns a state whose snake cells are pairwise distinct.  The collision test is made against the body before the move: on a due tick
  of a running game a new head on any cell of the snake, the tail cell included, ends
  the game and leaves the snake as it was.
\<close>

theorem snake_distinct_invariant:
  "(case reset_game t s of
      Inl e \<Rightarrow> field_sizes_getitem (field_size (settings s)) = Inl e
    | Inr s' \<Rightarrow> distinct (snake s') \<and> length (snake s') = 3) \<and>
   (distinct (snake s) \<longrightarrow>
      (case update_game_logic fa now s of
         Inl e \<Rightarrow> e = IndexError \<and> snake s = [] \<or>
                  py_truediv fa (current_speed s) 1000 = Inl e
       | Inr s' \<Rightarrow> distinct (snake s'))) \<and>
   (\<not> paused s \<and> \<not> game_over s \<and> py_truediv fa (current_speed s) 1000 = Inr interval \<and>
    \<not> fsub fa now (last_update_time s) < interval \<and> snake s = head # body \<and>
    point_add head (next_direction s) \<in> set (snake s) \<longrightarrow>
      (\<exists>s'. update_game_logic fa now s = Inr s' \<and> game_over s' \<and> snake s' = snake s))"
proof (intro conjI impI)
  show "case reset_game t s of
      Inl e \<Rightarrow> field_sizes_getitem (field_size (settings s)) = Inl e
    | Inr s' \<Rightarrow> distinct (snake s') \<and> length (snake s') = 3"
  proof (cases "field_sizes_getitem (field_size (settings s))")
    case (Inl e)
    then show ?thesis using reset_game_error[OF Inl] by simp
  next
    case (Inr field_info)
    obtain f p where "reset_game t s =
      Inr (s\<lparr>field_width := width field_info, field_height := height field_info,
             snake := [Point (height field_info div 2) (width field_info div 2),
                       Point (height field_info div 2) (width field_info div 2 - 1),
                       Point (height field_info div 2) (width field_info div 2 - 2)],
             direction := RIGHT, next_direction := RIGHT, score := 0,
             game_over := False, paused := False, foods_eaten := 0,
             current_speed := initial_speed (settings s), last_speed_increase := 0,
             food := f, rng_pos := p,
             current_session := Some
               \<lparr>start_time = t, end_time = 0, session_score = 0,
                session_foods_eaten = 0, max_length = 3,
                session_field_size = field_size (settings s),
                session_difficulty = difficulty (settings s),
                moves_made = 0, pauses_count = 0\<rparr>\<rparr>)"
      using reset_game_shape[OF Inr refl refl refl refl] by blast
    then show ?thesis by simp
  qed
next
  assume d: "distinct (snake s)"
  show "case update_game_logic fa now s of
         Inl e \<Rightarrow> e = IndexError \<and> snake s = [] \<or>
                  py_truediv fa (current_speed s) 1000 = Inl e
       | Inr s' \<Rightarrow> distinct (snake s')"
  proof (cases "game_over s \<or> paused s")
    case True
    then have "update_game_logic fa now s = Inr s" by (simp add: update_game_logic_def)
    then show ?thesis using d by simp
  next
    case run: False
    show ?thesis
    proof (cases "py_truediv fa (current_speed s) 1000")
      case (Inl e)
      then have "update_game_logic fa now s = Inl e" using run by (simp add: tick_type_error)
      then show ?thesis using Inl by simp
    next
      case (Inr interval')
      show ?thesis
      proof (cases "fsub fa now (last_update_time s) < interval'")
        case True
        then have "update_game_logic fa now s = Inr s"
          using Inr by (simp add: update_game_logic_def)
        then show ?thesis using d by simp
      next
        case due: False
        show ?thesis
        proof (cases "snake s")
          case Nil
          then have "update_game_logic fa now s = Inl IndexError"
            using run Inr due by (intro tick_empty) simp_all
          then show ?thesis using Nil by simp
        next
          case (Cons h b)
          define nh where "nh = point_add h (next_direction s)"
          have r: "\<not> paused s" "\<not> game_over s" using run by simp_all
          obtain s' where u: "update_game_logic fa now s = Inr s'"
            and c: "(if point_y nh < 0 \<or> field_height s \<le> point_y nh \<or>
                 point_x nh < 0 \<or> field_width s \<le> point_x nh \<or> nh \<in> set (snake s)
              then game_over s' \<and> snake s' = snake s \<and> score s' = score s \<and> food s' = food s
              else if nh = food s
              then \<not> game_over s' \<and> snake s' = nh # snake s \<and> score s' = score s + 10 \<and>
                   (if \<forall>i<100. candidate s i \<in> set (nh # snake s) then food s' = food s
                    else food s' \<notin> set (nh # snake s))
              else \<not> game_over s' \<and> snake s' = nh # butlast (snake s) \<and> score s' = score s \<and>
                   food s' = food s)"
            using tick_due_summary[OF r Inr due Cons nh_def] by blast
          have "snake s' = snake s \<or> (nh \<notin> set (snake s) \<and>
              (snake s' = nh # snake s \<or> snake s' = nh # butlast (snake s)))"
            using c by (auto split: if_splits)
          then have "distinct (snake s')"
            using d by (auto simp: distinct_butlast dest: in_set_butlastD)
          then show ?thesis using u by simp
        qed
      qed
    qed
  qed
next
  assume h: "\<not> paused s \<and> \<not> game_over s \<and> py_truediv fa (current_speed s) 1000 = Inr interval \<and>
    \<not> fsub fa now (last_update_time s) < interval \<and> snake s = head # body \<and>
    point_add head (next_direction s) \<in> set (snake s)"
  define nh where "nh = point_add head (next_direction s)"
  have c: "point_y nh < 0 \<or> field_height s \<le> point_y nh \<or>
         point_x nh < 0 \<or> field_width s \<le> point_x nh \<or> nh \<in> set (snake s)"
    using h unfolding nh_def by blast
  have r: "\<not> paused s" "\<not> game_over s" "py_truediv fa (current_speed s) 1000 = Inr interval"
    "\<not> fsub fa now (last_update_time s) < interval" "snake s = head # body"
    using h by simp_all
  have "\<exists>s'. update_game_logic fa now s = Inr s' \<and> direction s' = next_direction s \<and>
      last_update_time s' = now \<and>
      (game_over s' \<and> snake s' = snake s \<and> score s' = score s \<and> food s' = food s)"
    using tick_due_summary[OF r nh_def] unfolding if_P[OF c] .
  then show "\<exists>s'. update_game_logic fa now s = Inr s' \<and> game_over s' \<and> snake s' = snake s"
    by blast
qed

theorem snake_distinct_invariant_witness:
  "(\<exists>s'. reset_game 100 (at_menu lucky) = Inr s' \<and> distinct (snake s') \<and> length (snake s') = 3) \<and>
   distinct (snake (spawned lucky)) \<and>
   (\<exists>s'. update_game_logic exact 101 (spawned lucky) = Inr s' \<and> distinct (snake s')) \<and>
   \<not> paused trapped \<and> \<not> game_over trapped \<and>
   py_truediv exact (current_speed trapped) 1000 = Inr (147 / 1000) \<and>
   \<not> fsub exact 105 (last_update_time trapped) < 147 / 1000 \<and>
   snake trapped = Point 5 9 # [Point 4 9, Point 4 8, Point 5 8] \<and>
   point_add (Point 5 9) (next_direction trapped) \<in> set (snake trapped) \<and>
   (\<exists>s'. update_game_logic exact 105 trapped = Inr s' \<and> game_over s' \<and> snake s' = snake trapped) \<and>
   distinct (snake too_fast) \<and> update_game_logic exact 101 too_fast = Inl OverflowError \<and>
   py_truediv exact (current_speed too_fast) 1000 = Inl OverflowError"
proof -
  note inv = snake_distinct_invariant
  have key: "field_sizes_getitem (field_size (settings (at_menu lucky))) =
      Inr \<lparr>name = ''Small'', width = 15, height = 10,
        description = [1052, 1072, 1083, 1077, 1085, 1100, 1082, 1086, 1077, 32, 1087, 1086,
          1083, 1077, 32, 45, 32, 1073, 1099, 1089, 1090, 1088, 1099, 1077, 32, 1080, 1075,
          1088, 1099]\<rparr>"
    by (simp add: at_menu_def FIELD_SIZES_def)
  have 1: "\<exists>s'. reset_game 100 (at_menu lucky) = Inr s' \<and> distinct (snake s') \<and> length (snake s') = 3"
  proof (cases "reset_game 100 (at_menu lucky)")
    case (Inl e)
    then show ?thesis
      using inv[where t = 100 and s = "at_menu lucky", THEN conjunct1] key by simp
  next
    case (Inr s')
    then show ?thesis
      using inv[where t = 100 and s = "at_menu lucky", THEN conjunct1] by simp
  qed
  have d: "distinct (snake (spawned lucky))" by (simp add: spawned_fields)
  have n: "snake (spawned lucky) \<noteq> []"
    "py_truediv exact (current_speed (spawned lucky)) 1000 = Inr (3 / 20)"
    by (simp_all add: spawned_fields)
  have 2: "\<exists>s'. update_game_logic exact 101 (spawned lucky) = Inr s' \<and> distinct (snake s')"
  proof (cases "update_game_logic exact 101 (spawned lucky)")
    case (Inl e)
    then show ?thesis
      using inv[where s = "spawned lucky" and now = 101 and fa = exact,
          THEN conjunct2, THEN conjunct1] d n by simp
  next
    case (Inr s')
    then show ?thesis
      using inv[where s = "spawned lucky" and now = 101 and fa = exact,
          THEN conjunct2, THEN conjunct1] d by simp
  qed
  have h: "\<not> paused trapped" "\<not> game_over trapped"
    "py_truediv exact (current_speed trapped) 1000 = Inr (147 / 1000)"
    "\<not> fsub exact 105 (last_update_time trapped) < 147 / 1000"
    "snake trapped = Point 5 9 # [Point 4 9, Point 4 8, Point 5 8]"
    "point_add (Point 5 9) (next_direction trapped) \<in> set (snake trapped)"
    by (simp_all add: trapped_fields point_add_def)
  have 3: "\<exists>s'. update_game_logic exact 105 trapped = Inr s' \<and> game_over s' \<and> snake s' = snake trapped"
    using inv[where s = trapped and now = 105 and interval = "147 / 1000" and head = "Point 5 9"
        and body = "[Point 4 9, Point 4 8, Point 5 8]" and fa = exact,
        THEN conjunct2, THEN conjunct2] h by blast
  have o: "py_truediv exact (current_speed too_fast) 1000 = Inl OverflowError"
    "\<not> game_over too_fast" "\<not> paused too_fast" "distinct (snake too_fast)"
    by (simp_all add: too_fast_def spawned_fields)
  have 4: "update_game_logic exact 101 too_fast = Inl OverflowError"
    using o by (simp add: tick_type_error)
  show ?thesis using 1 d 2 h 3 o 4 by blast
qed




text \<open>
  C7.  Deserialising the serialisation of a settings record gives the record back.
  For every mapping \<open>from_dict\<close> returns a record and raises nothing; the record holds,
  for each settings field, the value the mapping gives the field and the field's default
  when the mapping has no such key; keys that are not settings fields have no effect.
\<close>

theorem settings_round_trip:
  "from_dict (to_dict g) = Inr g \<and>
   (\<exists>g'. from_dict data = Inr g' \<and>
      to_dict g' = to_dict GameSettings_default ++ (data |` known_fields)) \<and>
   ((\<forall>k\<in>known_fields. data k = data' k) \<longrightarrow> from_dict data = from_dict data') \<and>
   (dom data \<inter> known_fields = {} \<longrightarrow> from_dict data = Inr GameSettings_default)"
proof (intro conjI impI)
  show "from_dict (to_dict g) = Inr g" by (rule from_dict_to_dict)
  obtain g' where g': "from_dict data = Inr g'" using from_dict_eq[of data] by blast
  then show "\<exists>g'. from_dict data = Inr g' \<and>
      to_dict g' = to_dict GameSettings_default ++ (data |` known_fields)"
    using to_dict_from_dict by blast
  show "from_dict data = from_dict data'" if "\<forall>k\<in>known_fields. data k = data' k"
  proof -
    have "data |` known_fields = data' |` known_fields"
    proof (rule ext)
      fix k show "(data |` known_fields) k = (data' |` known_fields) k"
        using that by (cases "k \<in> known_fields") simp_all
    qed
    then show ?thesis by (simp only: from_dict_def Let_def)
  qed
  show "from_dict data = Inr GameSettings_default" if e: "dom data \<inter> known_fields = {}"
  proof -
    have n: "data k = None" if "k \<in> known_fields" for k
      using that e by (cases "data k") auto
    show ?thesis
      unfolding from_dict_eq GameSettings_default_def
        n[OF known_fields_mem(1)] n[OF known_fields_mem(2)] n[OF known_fields_mem(3)]
        n[OF known_fields_mem(4)] n[OF known_fields_mem(5)] n[OF known_fields_mem(6)]
        n[OF known_fields_mem(7)] n[OF known_fields_mem(8)] n[OF known_fields_mem(9)]
        n[OF known_fields_mem(10)] option.case
      by (rule refl)
  qed
qed

theorem settings_round_trip_witness:
  "from_dict (to_dict (GameSettings_default\<lparr>field_size := VStr ''Small''\<rparr>)) =
     Inr (GameSettings_default\<lparr>field_size := VStr ''Small''\<rparr>) \<and>
   (\<exists>g'. from_dict partial_settings = Inr g' \<and>
      to_dict g' = to_dict GameSettings_default ++ (partial_settings |` known_fields)) \<and>
   from_dict partial_settings = from_dict [''field_size'' \<mapsto> VStr ''Small''] \<and>
   from_dict partial_settings = Inr (GameSettings_default\<lparr>field_size := VStr ''Small''\<rparr>) \<and>
   dom [''colour'' \<mapsto> VStr ''red''] \<inter> known_fields = {} \<and>
   from_dict [''colour'' \<mapsto> VStr ''red''] = Inr GameSettings_default"
proof -
  note rt = settings_round_trip
  have 1: "from_dict (to_dict (GameSettings_default\<lparr>field_size := VStr ''Small''\<rparr>)) =
     Inr (GameSettings_default\<lparr>field_size := VStr ''Small''\<rparr>)"
    using rt[where g = "GameSettings_default\<lparr>field_size := VStr ''Small''\<rparr>"] by blast
  have 2: "\<exists>g'. from_dict partial_settings = Inr g' \<and>
      to_dict g' = to_dict GameSettings_default ++ (partial_settings |` known_fields)"
    using rt[where data = partial_settings] by blast
  have same: "\<forall>k\<in>known_fields. partial_settings k = [''field_size'' \<mapsto> VStr ''Small''] k"
    by (auto simp: known_fields_def partial_settings_def)
  have 3: "from_dict partial_settings = from_dict [''field_size'' \<mapsto> VStr ''Small'']"
    using rt[where data = partial_settings and data' = "[''field_size'' \<mapsto> VStr ''Small'']"]
      same by blast
  have 4: "from_dict partial_settings = Inr (GameSettings_default\<lparr>field_size := VStr ''Small''\<rparr>)"
    unfolding from_dict_eq by (simp add: partial_settings_def GameSettings_default_def)
  have 5: "dom [''colour'' \<mapsto> VStr ''red''] \<inter> known_fields = {}"
    by (simp add: known_fields_def)
  have 6: "from_dict [''colour'' \<mapsto> VStr ''red''] = Inr GameSettings_default"
    using rt[where data = "[''colour'' \<mapsto> VStr ''red'']"] 5 by blast
  show ?thesis using 1 2 3 4 5 6 by blast
qed

text \<open>
  C8.  A call of \<open>update_game_logic\<close> made while the game is over or paused returns
  the state it was given, and so does a call for which the comparison the code makes,
  \<^verbatim>\<open>current_time - last_update_time < current_speed / 1000.0\<close> in the arithmetic of
  the machine, holds: no field of the engine, of the session, of the random source or of
  the files changes.  That comparison is the whole of the window: a running game for
  which it fails makes a tick, which sets \<open>last_update_time\<close> to the time of the call,
  and a running game whose \<open>current_speed\<close> cannot be divided (it is no number, or an
  int too large for a float) raises.
\<close>

theorem update_game_logic_noop:
  "(game_over s \<or> paused s \<longrightarrow> update_game_logic fa now s = Inr s) \<and>
   (py_truediv fa (current_speed s) 1000 = Inr interval \<and>
    fsub fa now (last_update_time s) < interval \<longrightarrow> update_game_logic fa now s = Inr s) \<and>
   (\<not> game_over s \<and> \<not> paused s \<and> py_truediv fa (current_speed s) 1000 = Inr interval \<and>
    \<not> fsub fa now (last_update_time s) < interval \<and> update_game_logic fa now s = Inr s' \<longrightarrow>
      last_update_time s' = now) \<and>
   (\<not> game_over s \<and> \<not> paused s \<and> py_truediv fa (current_speed s) 1000 = Inl e \<longrightarrow>
      update_game_logic fa now s = Inl e)"
proof (intro conjI impI)
  show "update_game_logic fa now s = Inr s" if "game_over s \<or> paused s"
    using that by (simp add: update_game_logic_def)
  show "update_game_logic fa now s = Inr s"
    if "py_truediv fa (current_speed s) 1000 = Inr interval \<and>
      fsub fa now (last_update_time s) < interval"
    using that by (simp add: update_game_logic_def)
  show "update_game_logic fa now s = Inl e"
    if "\<not> game_over s \<and> \<not> paused s \<and> py_truediv fa (current_speed s) 1000 = Inl e"
    using that by (simp add: tick_type_error)
  show "last_update_time s' = now"
    if h: "\<not> game_over s \<and> \<not> paused s \<and> py_truediv fa (current_speed s) 1000 = Inr interval \<and>
      \<not> fsub fa now (last_update_time s) < interval \<and> update_game_logic fa now s = Inr s'"
  proof (cases "snake s")
    case Nil
    have r: "\<not> paused s" "\<not> game_over s" "py_truediv fa (current_speed s) 1000 = Inr interval"
      "\<not> fsub fa now (last_update_time s) < interval"
      using h by simp_all
    have "update_game_logic fa now s = Inl IndexError" using tick_empty[OF r Nil] .
    then show ?thesis using h by simp
  next
    case (Cons head body)
    have r: "\<not> paused s" "\<not> game_over s" "py_truediv fa (current_speed s) 1000 = Inr interval"
      "\<not> fsub fa now (last_update_time s) < interval"
      using h by simp_all
    obtain s2 where "update_game_logic fa now s = Inr s2" "last_update_time s2 = now"
      using tick_due_summary[OF r Cons refl] by blast
    then show ?thesis using h by simp
  qed
qed

theorem update_game_logic_noop_witness:
  "paused ((spawned lucky)\<lparr>paused := True\<rparr>) \<and>
   update_game_logic exact 101 ((spawned lucky)\<lparr>paused := True\<rparr>) =
     Inr ((spawned lucky)\<lparr>paused := True\<rparr>) \<and>
   py_truediv exact (current_speed (spawned lucky)) 1000 = Inr (3 / 20) \<and>
   fsub exact (1 / 8) (last_update_time (spawned lucky)) < 3 / 20 \<and>
   update_game_logic exact (1 / 8) (spawned lucky) = Inr (spawned lucky) \<and>
   \<not> game_over (spawned unlucky) \<and> \<not> paused (spawned unlucky) \<and>
   py_truediv exact (current_speed (spawned unlucky)) 1000 = Inr (3 / 20) \<and>
   \<not> fsub exact 101 (last_update_time (spawned unlucky)) < 3 / 20 \<and>
   update_game_logic exact 101 (spawned unlucky) = Inr fed \<and> last_update_time fed = 101 \<and>
   \<not> game_over too_fast \<and> \<not> paused too_fast \<and>
   py_truediv exact (current_speed too_fast) 1000 = Inl OverflowError \<and>
   update_game_logic exact 101 too_fast = Inl OverflowError"
proof -
  note noop = update_game_logic_noop
  have 1: "update_game_logic exact 101 ((spawned lucky)\<lparr>paused := True\<rparr>) =
      Inr ((spawned lucky)\<lparr>paused := True\<rparr>)"
    using noop[where s = "(spawned lucky)\<lparr>paused := True\<rparr>" and now = 101 and fa = exact]
    by simp
  have 2: "py_truediv exact (current_speed (spawned lucky)) 1000 = Inr (3 / 20)"
    "fsub exact (1 / 8) (last_update_time (spawned lucky)) < 3 / 20"
    by (simp_all add: spawned_fields)
  have 3: "update_game_logic exact (1 / 8) (spawned lucky) = Inr (spawned lucky)"
    using noop[where s = "spawned lucky" and now = "1 / 8" and interval = "3 / 20"
        and fa = exact] 2 by blast
  have 4: "\<not> game_over (spawned unlucky)" "\<not> paused (spawned unlucky)"
    "py_truediv exact (current_speed (spawned unlucky)) 1000 = Inr (3 / 20)"
    "\<not> fsub exact 101 (last_update_time (spawned unlucky)) < 3 / 20"
    by (simp_all add: spawned_fields)
  have 5: "last_update_time fed = 101"
    using noop[where s = "spawned unlucky" and now = 101 and interval = "3 / 20"
        and fa = exact and s' = fed] 4 tick_unlucky by blast
  have 6: "\<not> game_over too_fast" "\<not> paused too_fast"
    "py_truediv exact (current_speed too_fast) 1000 = Inl OverflowError"
    by (simp_all add: too_fast_def spawned_fields)
  have 7: "update_game_logic exact 101 too_fast = Inl OverflowError"
    using noop[where s = too_fast and now = 101 and e = OverflowError and fa = exact] 6
    by blast
  show ?thesis using 1 2 3 4 tick_unlucky 5 6 7 by simp
qed

text \<open>
  C9, as amended.  With the field size \<open>Small\<close> (15 by 10) selected, \<open>reset_game\<close>
  returns a state whose snake is (5,7), (5,6), (5,5), head first, facing right.  If the
  food of that state is at (5,8), a due tick moves the head to (5,8), eats the food, and
  makes the score 10 and the length 4.  The new food is on a cell off the snake when one
  of the 100 cells drawn is off the snake; when all 100 are on the snake the food stays
  at (5,8), under the head.
\<close>

theorem small_field_scenario:
  assumes "field_size (settings s) = VStr ''Small''"
  shows "\<exists>s1. reset_game t s = Inr s1 \<and> snake s1 = [Point 5 7, Point 5 6, Point 5 5] \<and>
     direction s1 = RIGHT \<and> field_width s1 = 15 \<and> field_height s1 = 10 \<and> score s1 = 0 \<and>
     (food s1 = Point 5 8 \<and> py_truediv fa (current_speed s1) 1000 = Inr interval \<and>
      \<not> fsub fa now (last_update_time s1) < interval \<longrightarrow>
        (\<exists>s2. update_game_logic fa now s1 = Inr s2 \<and>
           snake s2 = [Point 5 8, Point 5 7, Point 5 6, Point 5 5] \<and> score s2 = 10 \<and>
           length (snake s2) = 4 \<and>
           (if \<forall>i<100. candidate s1 i \<in> set [Point 5 8, Point 5 7, Point 5 6, Point 5 5]
            then food s2 = Point 5 8 else food s2 \<notin> set (snake s2))))"
proof -
  define small where "small = \<lparr>name = ''Small'', width = 15, height = 10,
        description = [1052, 1072, 1083, 1077, 1085, 1100, 1082, 1086, 1077, 32, 1087, 1086,
          1083, 1077, 32, 45, 32, 1073, 1099, 1089, 1090, 1088, 1099, 1077, 32, 1080, 1075,
          1088, 1099]\<rparr>"
  have key: "field_sizes_getitem (field_size (settings s)) = Inr small"
    by (simp add: assms FIELD_SIZES_def small_def)
  have wh: "width small = 15" "height small = 10" by (simp_all add: small_def)
  obtain s1 where r: "reset_game t s = Inr s1"
    and f: "snake s1 = [Point 5 7, Point 5 6, Point 5 5]" "direction s1 = RIGHT"
      "next_direction s1 = RIGHT" "field_width s1 = 15" "field_height s1 = 10" "score s1 = 0"
      "\<not> paused s1" "\<not> game_over s1"
  proof -
    obtain f p where "reset_game t s =
      Inr (s\<lparr>field_width := width small, field_height := height small,
             snake := [Point (height small div 2) (width small div 2),
                       Point (height small div 2) (width small div 2 - 1),
                       Point (height small div 2) (width small div 2 - 2)],
             direction := RIGHT, next_direction := RIGHT, score := 0,
             game_over := False, paused := False, foods_eaten := 0,
             current_speed := initial_speed (settings s), last_speed_increase := 0,
             food := f, rng_pos := p,
             current_session := Some
               \<lparr>start_time = t, end_time = 0, session_score = 0,
                session_foods_eaten = 0, max_length = 3,
                session_field_size = field_size (settings s),
                session_difficulty = difficulty (settings s),
                moves_made = 0, pauses_count = 0\<rparr>\<rparr>)" (is "_ = Inr ?s1")
      using reset_game_shape[OF key refl refl refl refl] by blast
    moreover have "snake ?s1 = [Point 5 7, Point 5 6, Point 5 5]" "direction ?s1 = RIGHT"
      "next_direction ?s1 = RIGHT" "field_width ?s1 = 15" "field_height ?s1 = 10"
      "score ?s1 = 0" "\<not> paused ?s1" "\<not> game_over ?s1"
      by (simp_all add: wh)
    ultimately show ?thesis using that by blast
  qed
  have tick: "\<exists>s2. update_game_logic fa now s1 = Inr s2 \<and>
           snake s2 = [Point 5 8, Point 5 7, Point 5 6, Point 5 5] \<and> score s2 = 10 \<and>
           length (snake s2) = 4 \<and>
           (if \<forall>i<100. candidate s1 i \<in> set [Point 5 8, Point 5 7, Point 5 6, Point 5 5]
            then food s2 = Point 5 8 else food s2 \<notin> set (snake s2))"
    if h: "food s1 = Point 5 8 \<and> py_truediv fa (current_speed s1) 1000 = Inr interval \<and>
      \<not> fsub fa now (last_update_time s1) < interval"
  proof -
    have sn: "snake s1 = Point 5 7 # [Point 5 6, Point 5 5]" using f(1) by simp
    have nh: "Point 5 8 = point_add (Point 5 7) (next_direction s1)"
      by (simp add: f(3) point_add_def)
    have nc: "\<not> (point_y (Point 5 8) < 0 \<or> field_height s1 \<le> point_y (Point 5 8) \<or>
         point_x (Point 5 8) < 0 \<or> field_width s1 \<le> point_x (Point 5 8) \<or>
         Point 5 8 \<in> set (snake s1))"
      by (simp add: f)
    have eat: "Point 5 8 = food s1" using h by simp
    obtain s2 where u: "update_game_logic fa now s1 = Inr s2"
      and c: "\<not> game_over s2 \<and> snake s2 = Point 5 8 # snake s1 \<and> score s2 = score s1 + 10 \<and>
           (if \<forall>i<100. candidate s1 i \<in> set (Point 5 8 # snake s1) then food s2 = food s1
            else food s2 \<notin> set (Point 5 8 # snake s1))"
      using tick_due_summary[OF f(7,8) h[THEN conjunct2, THEN conjunct1]
          h[THEN conjunct2, THEN conjunct2] sn nh]
      unfolding if_not_P[OF nc] if_P[OF eat] by blast
    have s2: "snake s2 = [Point 5 8, Point 5 7, Point 5 6, Point 5 5]" "score s2 = 10"
      using c f by simp_all
    have len: "length (snake s2) = 4" unfolding s2 by simp
    have fd: "(if \<forall>i<100. candidate s1 i \<in> set [Point 5 8, Point 5 7, Point 5 6, Point 5 5]
            then food s2 = Point 5 8 else food s2 \<notin> set (snake s2))"
      using c unfolding s2 f(1) eat[symmetric] by blast
    show ?thesis using u s2 len fd by blast
  qed
  show ?thesis using r f(1,2,4,5,6) tick by blast
qed

theorem small_field_scenario_witness:
  "engine_init small_files lucky = Inr (at_menu lucky) \<and>
   field_size (settings ((at_menu lucky)\<lparr>state := PLAYING\<rparr>)) = VStr ''Small'' \<and>
   reset_game 100 ((at_menu lucky)\<lparr>state := PLAYING\<rparr>) = Inr (spawned lucky) \<and>
   snake (spawned lucky) = [Point 5 7, Point 5 6, Point 5 5] \<and>
   direction (spawned lucky) = RIGHT \<and> food (spawned lucky) = Point 5 8 \<and>
   py_truediv exact (current_speed (spawned lucky)) 1000 = Inr (3 / 20) \<and>
   \<not> fsub exact 101 (last_update_time (spawned lucky)) < 3 / 20 \<and>
   (\<exists>s2. update_game_logic exact 101 (spawned lucky) = Inr s2 \<and>
      snake s2 = [Point 5 8, Point 5 7, Point 5 6, Point 5 5] \<and> score s2 = 10 \<and>
      length (snake s2) = 4 \<and> food s2 \<notin> set (snake s2))"
proof -
  have fs: "field_size (settings ((at_menu lucky)\<lparr>state := PLAYING\<rparr>)) = VStr ''Small''"
    by (simp add: at_menu_def)
  have rs: "reset_game 100 ((at_menu lucky)\<lparr>state := PLAYING\<rparr>) = Inr (spawned lucky)"
    by (rule reset_at_menu) (simp_all add: lucky_def)
  have h: "food (spawned lucky) = Point 5 8 \<and>
      py_truediv exact (current_speed (spawned lucky)) 1000 = Inr (3 / 20) \<and>
      \<not> fsub exact 101 (last_update_time (spawned lucky)) < 3 / 20"
    by (simp add: spawned_fields)
  have nall: "\<not> (\<forall>i<100. candidate (spawned lucky) i \<in>
      set [Point 5 8, Point 5 7, Point 5 6, Point 5 5])"
  proof
    assume "\<forall>i<100. candidate (spawned lucky) i \<in> set [Point 5 8, Point 5 7, Point 5 6, Point 5 5]"
    then have "candidate (spawned lucky) 0 \<in> set [Point 5 8, Point 5 7, Point 5 6, Point 5 5]"
      by simp
    then show False by (simp add: lucky_candidate_0)
  qed
  obtain s1 where s1: "reset_game 100 ((at_menu lucky)\<lparr>state := PLAYING\<rparr>) = Inr s1"
    and t: "food s1 = Point 5 8 \<and> py_truediv exact (current_speed s1) 1000 = Inr (3 / 20) \<and>
      \<not> fsub exact 101 (last_update_time s1) < 3 / 20 \<longrightarrow>
        (\<exists>s2. update_game_logic exact 101 s1 = Inr s2 \<and>
           snake s2 = [Point 5 8, Point 5 7, Point 5 6, Point 5 5] \<and> score s2 = 10 \<and>
           length (snake s2) = 4 \<and>
           (if \<forall>i<100. candidate s1 i \<in> set [Point 5 8, Point 5 7, Point 5 6, Point 5 5]
            then food s2 = Point 5 8 else food s2 \<notin> set (snake s2)))"
    using small_field_scenario[OF fs, where t = 100 and interval = "3 / 20" and now = 101
        and fa = exact] by blast
  have e: "s1 = spawned lucky" using s1 rs by simp
  have "\<exists>s2. update_game_logic exact 101 (spawned lucky) = Inr s2 \<and>
      snake s2 = [Point 5 8, Point 5 7, Point 5 6, Point 5 5] \<and> score s2 = 10 \<and>
      length (snake s2) = 4 \<and> food s2 \<notin> set (snake s2)"
    using t[unfolded e if_not_P[OF nall], rule_format, OF h] .
  then show ?thesis
    using engine_init_small[of lucky] fs rs h by (simp add: spawned_fields)
qed

text \<open>
  As the specification words it the property fails for a random source that keeps drawing a cell of the
  snake: the game started from the menu on the 15 by 10 field has its food at (5,8), and
  after the tick the food is still at (5,8), which is now the head of the snake.
\<close>

theorem small_field_scenario_counterexample:
  "engine_init small_files unlucky = Inr (at_menu unlucky) \<and>
   handle_menu_navigation ''select'' 100 (at_menu unlucky) = Inr (False, spawned unlucky) \<and>
   field_width (spawned unlucky) = 15 \<and> field_height (spawned unlucky) = 10 \<and>
   snake (spawned unlucky) = [Point 5 7, Point 5 6, Point 5 5] \<and>
   food (spawned unlucky) = Point 5 8 \<and>
   update_game_logic exact 101 (spawned unlucky) = Inr fed \<and>
   snake fed = [Point 5 8, Point 5 7, Point 5 6, Point 5 5] \<and> score fed = 10 \<and>
   food fed = Point 5 8 \<and> food fed \<in> set (snake fed)"
proof -
  have sel: "handle_menu_navigation ''select'' 100 (at_menu unlucky) = Inr (False, spawned unlucky)"
    by (rule select_at_menu) (simp_all add: unlucky_def)
  have f: "snake fed = [Point 5 8, Point 5 7, Point 5 6, Point 5 5]" "score fed = 10"
    "food fed = Point 5 8"
    by (simp_all add: fed_def spawned_fields)
  have "food fed \<in> set (snake fed)" unfolding f by simp
  then show ?thesis
    using engine_init_small[of unlucky] sel tick_unlucky f by (simp add: spawned_fields)
qed

text \<open>
  C10.  The action \<open>back\<close> of the settings screen returns the state with only the
  application state changed, to the menu: the settings record in memory and the data
  manager with its files are as before.  Of all actions only \<open>select\<close> on index 8
  changes the data manager, by saving the settings.
\<close>

theorem settings_back_only_state:
  "handle_settings_navigation ''back'' s = Inr (s\<lparr>state := MENU\<rparr>) \<and>
   settings (s\<lparr>state := MENU\<rparr>) = settings s \<and>
   data_manager (s\<lparr>state := MENU\<rparr>) = data_manager s \<and>
   (handle_settings_navigation action s = Inr s' \<and>
    \<not> (action = ''select'' \<and> settings_index s = 8) \<longrightarrow> data_manager s' = data_manager s) \<and>
   (settings_index s = 8 \<longrightarrow>
      handle_settings_navigation ''select'' s =
        Inr (s\<lparr>data_manager := save_settings (settings s) (data_manager s), state := MENU\<rparr>))"
proof (intro conjI impI)
  show "handle_settings_navigation ''back'' s = Inr (s\<lparr>state := MENU\<rparr>)"
    by (simp add: handle_settings_navigation_def)
  show "handle_settings_navigation ''select'' s =
        Inr (s\<lparr>data_manager := save_settings (settings s) (data_manager s), state := MENU\<rparr>)"
    if "settings_index s = 8"
    using that by (simp add: handle_settings_navigation_def)
  show "data_manager s' = data_manager s"
    if h: "handle_settings_navigation action s = Inr s' \<and>
      \<not> (action = ''select'' \<and> settings_index s = 8)"
  proof (cases "action = ''select''")
    case True
    then have i: "settings_index s \<noteq> 8" using h by simp
    have r: "handle_settings_navigation ''select'' s = Inr s'" using h True by simp
    consider "settings_index s = 0" | "settings_index s = 1" | "settings_index s = 2"
      | "settings_index s = 3" | "settings_index s = 4" | "settings_index s = 5"
      | "settings_index s = 6" | "settings_index s = 7"
      | "settings_index s \<notin> {0, 1, 2, 3, 4, 5, 6, 7, 8}"
      using i by auto
    then show ?thesis
    proof cases
      case 1
      then show ?thesis using r
        by (auto simp: handle_settings_navigation_def Let_def split: sum.splits option.splits)
    next
      case 2
      then show ?thesis using r
        by (auto simp: handle_settings_navigation_def Let_def split: sum.splits)
    qed (use r in \<open>auto simp: handle_settings_navigation_def\<close>)
  next
    case False
    then show ?thesis using h
      by (auto simp: handle_settings_navigation_def split: if_splits)
  qed
qed simp_all

theorem settings_back_only_state_witness:
  "handle_settings_navigation ''select'' in_settings = Inr toggled \<and>
   \<not> (''select'' = ''select'' \<and> settings_index in_settings = 8) \<and>
   data_manager toggled = data_manager in_settings \<and>
   handle_settings_navigation ''back'' toggled = Inr (toggled\<lparr>state := MENU\<rparr>) \<and>
   show_grid (settings (toggled\<lparr>state := MENU\<rparr>)) = VBool False \<and>
   settings_store (data_manager (toggled\<lparr>state := MENU\<rparr>)) =
     Some [''field_size'' \<mapsto> VStr ''Small''] \<and>
   settings_index (toggled\<lparr>settings_index := 8\<rparr>) = 8 \<and>
   handle_settings_navigation ''select'' (toggled\<lparr>settings_index := 8\<rparr>) =
     Inr (toggled\<lparr>settings_index := 8,
            data_manager := save_settings (settings toggled) (data_manager toggled),
            state := MENU\<rparr>)"
proof -
  have sel: "handle_settings_navigation ''select'' in_settings = Inr toggled"
    by (simp add: handle_settings_navigation_def in_settings_def toggled_def at_menu_def
        GameSettings_default_def py_not_def)
  have i: "\<not> (''select'' = ''select'' \<and> settings_index in_settings = 8)"
    by (simp add: in_settings_def)
  have dm: "data_manager toggled = data_manager in_settings"
    using settings_back_only_state[of in_settings "''select''" toggled] sel i by blast
  have bk: "handle_settings_navigation ''back'' toggled = Inr (toggled\<lparr>state := MENU\<rparr>)"
    using settings_back_only_state[of toggled] by blast
  have kept: "show_grid (settings (toggled\<lparr>state := MENU\<rparr>)) = VBool False"
    "settings_store (data_manager (toggled\<lparr>state := MENU\<rparr>)) =
       Some [''field_size'' \<mapsto> VStr ''Small'']"
    by (simp_all add: toggled_def in_settings_def at_menu_def small_files_def)
  have i8: "settings_index (toggled\<lparr>settings_index := 8\<rparr>) = 8" by simp
  have save: "handle_settings_navigation ''select'' (toggled\<lparr>settings_index := 8\<rparr>) =
     Inr (toggled\<lparr>settings_index := 8,
            data_manager := save_settings (settings toggled) (data_manager toggled),
            state := MENU\<rparr>)"
    using settings_back_only_state[of "toggled\<lparr>settings_index := 8\<rparr>"] i8 by simp
  show ?thesis using sel i dm bk kept i8 save by blast
qed

end
